theory Spec2Isabelle
  imports Main
begin

section \<open>Python values used by scraper.py\<close>

text \<open>
  A Python \<^verbatim>\<open>str\<close> is a sequence of Unicode code points, so it is modelled as a
  list of naturals: \<open>len\<close> is \<open>length\<close>, slicing \<open>s[:n]\<close> is \<open>take n s\<close> and
  \<open>+\<close> is \<open>@\<close>. \<open>pstr\<close> writes an ASCII literal.
\<close>

type_synonym pystr = "nat list"

abbreviation pstr :: "string \<Rightarrow> pystr" where
  "pstr s \<equiv> map of_char s"

text \<open>
  An exception is its class and the text \<open>str(e)\<close> gives for it. Only the class
  \<open>TimeoutException\<close> is ever tested by a handler of scraper.py; every other handler
  is \<^verbatim>\<open>except Exception\<close>.
\<close>

datatype exn_class =
    TimeoutException | NoSuchElementException | WebDriverException
  | ValueError | AttributeError | MemoryError | RequestException

datatype exn = Exn exn_class pystr

fun str_of_exn :: "exn \<Rightarrow> pystr" where
  "str_of_exn (Exn c m) = m"

fun class_of_exn :: "exn \<Rightarrow> exn_class" where
  "class_of_exn (Exn c m) = c"

subsection \<open>String operations\<close>

text \<open>\<open>sub in s\<close> on strings: \<open>sub\<close> occurs in \<open>s\<close> as a contiguous block.\<close>

fun startswith :: "pystr \<Rightarrow> pystr \<Rightarrow> bool" where
  "startswith s [] = True"
| "startswith [] (c # cs) = False"
| "startswith (x # xs) (c # cs) = (x = c \<and> startswith xs cs)"

fun py_in :: "pystr \<Rightarrow> pystr \<Rightarrow> bool" where
  "py_in sub [] = (sub = [])"
| "py_in sub (c # cs) = (startswith (c # cs) sub \<or> py_in sub cs)"

text \<open>
  \<open>str.strip()\<close> removes the code points for which \<open>str.isspace\<close> holds from both
  ends. The set is the one CPython uses for \<open>str\<close>.
\<close>

definition isspace :: "nat \<Rightarrow> bool" where
  "isspace c =
     ((9 \<le> c \<and> c \<le> 13) \<or> (28 \<le> c \<and> c \<le> 32) \<or> c = 133 \<or> c = 160 \<or> c = 5760
      \<or> (8192 \<le> c \<and> c \<le> 8202) \<or> c = 8232 \<or> c = 8233 \<or> c = 8239 \<or> c = 8287
      \<or> c = 12288)"

definition strip :: "pystr \<Rightarrow> pystr" where
  "strip s = rev (dropWhile isspace (rev (dropWhile isspace s)))"

text \<open>\<open>sep.join(xs)\<close>.\<close>

fun join :: "pystr \<Rightarrow> pystr list \<Rightarrow> pystr" where
  "join sep [] = []"
| "join sep [x] = x"
| "join sep (x # y # ys) = x @ sep @ join sep (y # ys)"

section \<open>The world outside scraper.py\<close>

text \<open>
  Everything scraper.py calls but does not define is a field of the environment:
  the parsed document of BeautifulSoup, the page a Selenium driver has loaded, the
  driver, and the library functions whose tables are not part of the repository.
  A call that can raise returns \<open>exn + 'a\<close>, \<open>Inl\<close> being the exception raised.
  The world is read and never written: a query has one answer, however often it is
  asked, and the delays and log lines of scraper.py are left out.

  \<^item> \<open>select_one soup sel\<close> is \<open>soup.select_one(sel)\<close> followed by \<open>.text\<close>:
    \<open>None\<close> when no element matches, else the text of the first match.
  \<^item> \<open>wait_until page sel\<close> is \<open>WebDriverWait(driver, 10).until(presence_of_element_located(sel))\<close>
    followed by \<open>.text\<close>; it raises \<open>TimeoutException\<close> when no element appears.
  \<^item> \<open>find_element page sel\<close> is \<open>driver.find_element(By.CSS_SELECTOR, sel).text\<close>.
  \<^item> \<open>find_elements page sel\<close> is \<open>driver.find_elements(By.CSS_SELECTOR, sel)\<close>;
    each element is what reading its \<open>.text\<close> gives, which can raise on its own
    (a stale element).
  \<^item> \<open>body_text page\<close> is \<open>driver.find_element(By.TAG_NAME, 'body').text\<close>.
\<close>

record soup =
  select_one :: "pystr \<Rightarrow> exn + pystr option"
  get_text :: "exn + pystr"

record page =
  wait_until :: "pystr \<Rightarrow> exn + pystr"
  find_element :: "pystr \<Rightarrow> exn + pystr"
  find_elements :: "pystr \<Rightarrow> exn + (exn + pystr) list"
  body_text :: "exn + pystr"
  current_url :: "exn + pystr"
  page_source :: "exn + soup"

text \<open>
  \<open>driver_get d url\<close> is \<open>driver.get(url)\<close>: the page the browser then shows, which
  all later queries read. \<open>execute_script d\<close> is the one script _setup_selenium runs.
\<close>

record driver =
  execute_script :: "exn + unit"
  driver_get :: "pystr \<Rightarrow> exn + page"

text \<open>The three patterns of _extract_requirements_from_text, in the order of the list.\<close>

datatype req_pattern = Pattern_requirements | Pattern_needed | Pattern_expect

text \<open>
  \<^item> \<open>urlparse_netloc env url\<close> is \<open>urlparse(url).netloc\<close>; urlparse raises
    \<open>ValueError\<close> on some malformed URLs.
  \<^item> \<open>lower env s\<close> is \<open>s.lower()\<close> and \<open>isdigit env c\<close> is \<open>c.isdigit()\<close>, both
    read from the Unicode tables of the interpreter.
  \<^item> \<open>re_findall env p text\<close> is \<open>re.findall(p, text, re.IGNORECASE | re.MULTILINE | re.DOTALL)\<close>
    and \<open>re_split env m\<close> is the \<open>re.split\<close> on bullets, commas, semicolons,
    dashes and newlines.
  \<^item> \<open>set_iter env xs\<close> is \<open>list(set(xs))\<close>: the elements of \<open>xs\<close> in the
    iteration order of the set, which depends on the string hashes.
  \<^item> \<open>webdriver_Chrome env headless\<close> is \<open>webdriver.Chrome(options=chrome_options)\<close>.
  \<^item> \<open>session_get env url\<close> is \<open>session.get(url)\<close>, \<open>raise_for_status()\<close> and the
    parse of the body by BeautifulSoup, the three statements of the try block of
    _scrape_with_requests before the extraction.
\<close>

record env =
  urlparse_netloc :: "pystr \<Rightarrow> exn + pystr"
  lower :: "pystr \<Rightarrow> pystr"
  isdigit :: "nat \<Rightarrow> bool"
  re_findall :: "req_pattern \<Rightarrow> pystr \<Rightarrow> pystr list"
  re_split :: "pystr \<Rightarrow> pystr list"
  set_iter :: "pystr list \<Rightarrow> pystr list"
  webdriver_Chrome :: "bool \<Rightarrow> exn + driver"
  session_get :: "pystr \<Rightarrow> exn + soup"

section \<open>The scraper\<close>

subsection \<open>The result dictionary\<close>

text \<open>
  Every result is a dict with a fixed choice of keys; a key the dict does not have
  is \<open>None\<close>. A failure has only \<open>success\<close> and \<open>error\<close>, and on two paths
  \<open>portal\<close> and \<open>url\<close> too.
\<close>

record scrape_result =
  success :: bool
  error :: "pystr option"
  portal :: "pystr option"
  url :: "pystr option"
  title :: "pystr option"
  company :: "pystr option"
  location :: "pystr option"
  salary :: "pystr option"
  requirements :: "pystr list option"
  skills :: "pystr list option"
  description :: "pystr option"
  experience_level :: "pystr option"
  raw_requirements :: "pystr option"

text \<open>\<^verbatim>\<open>{'success': False, 'error': msg}\<close>\<close>

definition failure :: "pystr \<Rightarrow> scrape_result" where
  "failure msg =
     \<lparr> success = False, error = Some msg, portal = None, url = None, title = None,
       company = None, location = None, salary = None, requirements = None,
       skills = None, description = None, experience_level = None,
       raw_requirements = None \<rparr>"

text \<open>\<^verbatim>\<open>{'success': False, 'error': msg, 'portal': portal, 'url': url}\<close>\<close>

definition failure_at :: "pystr \<Rightarrow> pystr \<Rightarrow> pystr \<Rightarrow> scrape_result" where
  "failure_at msg p u = (failure msg) \<lparr> portal := Some p, url := Some u \<rparr>"

subsection \<open>The scraper object\<close>

record scraper =
  use_selenium :: bool
  headless :: bool
  driver :: "driver option"

text \<open>
  _setup_selenium: the driver is created and one script run; any exception turns
  \<open>use_selenium\<close> off. The driver is assigned before the script runs.
\<close>

definition setup_selenium :: "env \<Rightarrow> scraper \<Rightarrow> scraper" where
  "setup_selenium e self =
     (case webdriver_Chrome e (headless self) of
        Inl ex \<Rightarrow> self \<lparr> use_selenium := False \<rparr>
      | Inr d \<Rightarrow>
          (case execute_script d of
             Inl ex \<Rightarrow> self \<lparr> use_selenium := False, driver := Some d \<rparr>
           | Inr _ \<Rightarrow> self \<lparr> driver := Some d \<rparr>))"

text \<open>__init__\<close>

definition init :: "env \<Rightarrow> bool \<Rightarrow> bool \<Rightarrow> scraper" where
  "init e use_sel hl =
     (let self = \<lparr> use_selenium = use_sel, headless = hl, driver = None \<rparr>
      in if use_sel then setup_selenium e self else self)"

subsection \<open>detect_portal\<close>

definition portals :: "(pystr \<times> pystr) list" where
  "portals =
     [(pstr ''pracuj.pl'', pstr ''pracuj''),
      (pstr ''indeed.pl'', pstr ''indeed''),
      (pstr ''indeed.com'', pstr ''indeed''),
      (pstr ''nofluffjobs.com'', pstr ''nofluff''),
      (pstr ''justjoin.it'', pstr ''justjoin''),
      (pstr ''theprotocol.it'', pstr ''protocol''),
      (pstr ''bulldogjob.pl'', pstr ''bulldog'')]"

text \<open>The loop over \<open>portals.items()\<close>: the first key found in the domain decides.\<close>

fun first_portal :: "(pystr \<times> pystr) list \<Rightarrow> pystr \<Rightarrow> pystr" where
  "first_portal [] domain = pstr ''unknown''"
| "first_portal ((domain_key, p) # rest) domain =
     (if py_in domain_key domain then p else first_portal rest domain)"

definition detect_portal :: "env \<Rightarrow> pystr \<Rightarrow> exn + pystr" where
  "detect_portal e u =
     (case urlparse_netloc e u of
        Inl ex \<Rightarrow> Inl ex
      | Inr netloc \<Rightarrow> Inr (first_portal portals (lower e netloc)))"

subsection \<open>_extract_experience_level\<close>

definition senior_words :: "pystr list" where
  "senior_words =
     [pstr ''senior'', pstr ''lead'', pstr ''principal'', pstr ''architect'',
      pstr ''5+ lat'', pstr ''5+ years'', pstr ''starszy'']"

text \<open>The two Polish words have one code point outside ASCII each (U+0105, U+0142).\<close>

definition junior_words :: "pystr list" where
  "junior_words =
     [pstr ''junior'', pstr ''intern'', pstr ''trainee'', pstr ''entry'',
      pstr ''pocz'' @ [261] @ pstr ''tkuj'', pstr ''m'' @ [322] @ pstr ''odszy'']"

definition mid_words :: "pystr list" where
  "mid_words =
     [pstr ''mid'', pstr ''regular'', pstr ''specjalista'', pstr ''2-4 lat'',
      pstr ''2-4 years'']"

text \<open>\<open>any(word in text_lower for word in words)\<close>\<close>

definition any_in :: "pystr list \<Rightarrow> pystr \<Rightarrow> bool" where
  "any_in ws text_lower = list_ex (\<lambda>word. py_in word text_lower) ws"

definition extract_experience_level :: "env \<Rightarrow> pystr \<Rightarrow> pystr" where
  "extract_experience_level e text =
     (if text = [] then pstr ''Unknown''
      else let text_lower = lower e text in
        if any_in senior_words text_lower then pstr ''Senior''
        else if any_in junior_words text_lower then pstr ''Junior''
        else if any_in mid_words text_lower then pstr ''Mid''
        else pstr ''Mid'')"

subsection \<open>Keyword lexicon and text mining\<close>

definition tech_keywords :: "pystr list" where
  "tech_keywords =
     [pstr ''Python'', pstr ''Java'', pstr ''JavaScript'', pstr ''TypeScript'', pstr ''C#'',
      pstr ''C++'', pstr ''PHP'', pstr ''Ruby'', pstr ''Go'', pstr ''Rust'', pstr ''Kotlin'',
      pstr ''React'', pstr ''Angular'', pstr ''Vue'', pstr ''Django'', pstr ''Flask'',
      pstr ''Spring'', pstr ''Node.js'', pstr ''Express'', pstr ''FastAPI'',
      pstr ''MySQL'', pstr ''PostgreSQL'', pstr ''MongoDB'', pstr ''Redis'',
      pstr ''ElasticSearch'', pstr ''SQLite'',
      pstr ''Docker'', pstr ''Kubernetes'', pstr ''AWS'', pstr ''Azure'', pstr ''GCP'',
      pstr ''Jenkins'', pstr ''GitLab'', pstr ''GitHub'',
      pstr ''Git'', pstr ''CI/CD'', pstr ''Linux'', pstr ''Ubuntu'', pstr ''Nginx'',
      pstr ''Apache'',
      pstr ''Scrum'', pstr ''Agile'', pstr ''REST'', pstr ''API'', pstr ''GraphQL'',
      pstr ''Microservices'',
      pstr ''HTML'', pstr ''CSS'', pstr ''SASS'', pstr ''Bootstrap'', pstr ''Tailwind'',
      pstr ''jQuery'', pstr ''Webpack'']"

text \<open>_extract_skills_from_text\<close>

definition extract_skills_from_text :: "env \<Rightarrow> pystr \<Rightarrow> pystr list" where
  "extract_skills_from_text e text =
     (if text = [] then []
      else let text_lower = lower e text in
        take 15 (filter (\<lambda>skill. py_in (lower e skill) text_lower) tech_keywords))"

text \<open>
  _extract_requirements_from_text: every piece of every match of every pattern,
  stripped, kept when it has more than 10 and fewer than 150 characters; the first
  ten of them.
\<close>

definition req_ok :: "pystr \<Rightarrow> bool" where
  "req_ok req = (req \<noteq> [] \<and> length req > 10 \<and> length req < 150)"

definition patterns :: "req_pattern list" where
  "patterns = [Pattern_requirements, Pattern_needed, Pattern_expect]"

definition extract_requirements_from_text :: "env \<Rightarrow> pystr \<Rightarrow> pystr list" where
  "extract_requirements_from_text e text =
     (if text = [] then []
      else take 10
        (concat (map (\<lambda>pattern.
           concat (map (\<lambda>m. filter req_ok (map strip (re_split e m)))
             (re_findall e pattern text)))
           patterns)))"

subsection \<open>Selector cascades on the rendered page\<close>

text \<open>The value of \<open>x or d\<close> for an optional string \<open>x\<close>.\<close>

fun or_else :: "pystr option \<Rightarrow> pystr \<Rightarrow> pystr" where
  "or_else None d = d"
| "or_else (Some t) d = (if t = [] then d else t)"

text \<open>_try_selectors: any exception moves on to the next selector.\<close>

fun try_selectors :: "page \<Rightarrow> pystr list \<Rightarrow> pystr option" where
  "try_selectors pg [] = None"
| "try_selectors pg (selector # rest) =
     (case find_element pg selector of
        Inl ex \<Rightarrow> try_selectors pg rest
      | Inr t \<Rightarrow>
          (let text = strip t in
           if text \<noteq> [] then Some text else try_selectors pg rest))"

text \<open>
  The inner loop of _extract_list_items and of _extract_skills: the texts that pass
  the test are appended to the list in place, so what was appended before a read
  raises stays in the list. The result is the list and the exception, if any.
\<close>

fun collect_texts ::
  "(pystr \<Rightarrow> bool) \<Rightarrow> (exn + pystr) list \<Rightarrow> pystr list \<Rightarrow> pystr list \<times> exn option" where
  "collect_texts ok [] items = (items, None)"
| "collect_texts ok (Inl ex # elements) items = (items, Some ex)"
| "collect_texts ok (Inr t # elements) items =
     (let text = strip t in
      collect_texts ok elements (if ok text then items @ [text] else items))"

text \<open>
  The outer loop of both: an exception anywhere in the body goes to the next
  selector (\<open>continue\<close>); a body that ends with a non-empty list ends the loop
  (\<open>break\<close>).
\<close>

fun selector_loop ::
  "(pystr \<Rightarrow> bool) \<Rightarrow> page \<Rightarrow> pystr list \<Rightarrow> pystr list \<Rightarrow> pystr list" where
  "selector_loop ok pg [] items = items"
| "selector_loop ok pg (selector # rest) items =
     (case find_elements pg selector of
        Inl ex \<Rightarrow> selector_loop ok pg rest items
      | Inr elements \<Rightarrow>
          (case collect_texts ok elements items of
             (items', Some ex) \<Rightarrow> selector_loop ok pg rest items'
           | (items', None) \<Rightarrow>
               if items' \<noteq> [] then items' else selector_loop ok pg rest items'))"

text \<open>_extract_list_items\<close>

definition item_ok :: "pystr \<Rightarrow> bool" where
  "item_ok text = (text \<noteq> [] \<and> length text > 5 \<and> length text < 200)"

definition extract_list_items :: "page \<Rightarrow> pystr list \<Rightarrow> pystr list" where
  "extract_list_items pg selectors = take 10 (selector_loop item_ok pg selectors [])"

text \<open>
  _extract_skills: the read of the body text is outside every try block of the
  function, so its exception leaves the function.
\<close>

definition skill_ok :: "env \<Rightarrow> pystr \<Rightarrow> bool" where
  "skill_ok e text = (text \<noteq> [] \<and> length text < 50 \<and> \<not> list_ex (isdigit e) text)"

fun add_keywords :: "env \<Rightarrow> pystr \<Rightarrow> pystr list \<Rightarrow> pystr list \<Rightarrow> pystr list" where
  "add_keywords e page_text [] found = found"
| "add_keywords e page_text (keyword # rest) found =
     add_keywords e page_text rest
       (if py_in (lower e keyword) page_text \<and> keyword \<notin> set found
        then found @ [keyword] else found)"

definition extract_skills :: "env \<Rightarrow> page \<Rightarrow> pystr list \<Rightarrow> exn + pystr list" where
  "extract_skills e pg selectors =
     (let found = selector_loop (skill_ok e) pg selectors [] in
      case body_text pg of
        Inl ex \<Rightarrow> Inl ex
      | Inr body \<Rightarrow>
          Inr (take 15 (set_iter e (add_keywords e (lower e body) tech_keywords found))))"

subsection \<open>_scrape_pracuj_selenium\<close>

text \<open>
  The title: the wait for the title element, and the selector cascade when the
  wait times out. Any other exception of the wait leaves the function body.
\<close>

definition pracuj_title_wait :: pystr where
  \<open>pracuj_title_wait = pstr ''[data-test="text-offerTitle"], h1''\<close>

definition pracuj_title_selectors :: "pystr list" where
  \<open>pracuj_title_selectors = [pstr ''h1'', pstr ''.offer-title'', pstr ''[data-test*="title"]'']\<close>

definition pracuj_title :: "page \<Rightarrow> exn + pystr" where
  "pracuj_title pg =
     (case wait_until pg pracuj_title_wait of
        Inr t \<Rightarrow> Inr (strip t)
      | Inl ex \<Rightarrow>
          if class_of_exn ex = TimeoutException
          then Inr (or_else (try_selectors pg pracuj_title_selectors) (pstr ''N/A''))
          else Inl ex)"

definition pracuj_company_selectors :: "pystr list" where
  \<open>pracuj_company_selectors =
     [pstr ''[data-test="text-employer"]'', pstr ''.company-name'',
      pstr ''[data-test*="company"]'', pstr ''h2'']\<close>

definition pracuj_location_selectors :: "pystr list" where
  \<open>pracuj_location_selectors =
     [pstr ''[data-test="text-workingPlace"]'', pstr ''.location'',
      pstr ''[data-test*="location"]'']\<close>

definition pracuj_req_selectors :: "pystr list" where
  \<open>pracuj_req_selectors =
     [pstr ''[data-test="section-requirements"] li'', pstr ''.requirements li'',
      pstr ''.requirement-item'', pstr ''[data-test*="requirement"] li'']\<close>

definition pracuj_skill_selectors :: "pystr list" where
  \<open>pracuj_skill_selectors =
     [pstr ''[data-test="chip-item"]'', pstr ''.skill-tag'', pstr ''.technology-tag'',
      pstr ''.badge'']\<close>

definition pracuj_desc_selectors :: "pystr list" where
  \<open>pracuj_desc_selectors =
     [pstr ''[data-test="section-responsibilities"]'', pstr ''.job-description'',
      pstr ''.offer-description'', pstr ''[data-test*="description"]'']\<close>

definition pracuj_salary_selectors :: "pystr list" where
  \<open>pracuj_salary_selectors =
     [pstr ''[data-test*="salary"]'', pstr ''.salary'', pstr ''.wage'',
      pstr ''[data-test*="wage"]'']\<close>

text \<open>The body of the try block, in the order the statements run.\<close>

definition scrape_pracuj_selenium_try :: "env \<Rightarrow> page \<Rightarrow> exn + scrape_result" where
  "scrape_pracuj_selenium_try e pg =
     (case pracuj_title pg of
        Inl ex \<Rightarrow> Inl ex
      | Inr title' \<Rightarrow>
          (let company' = or_else (try_selectors pg pracuj_company_selectors) (pstr ''N/A'');
               location' = or_else (try_selectors pg pracuj_location_selectors) (pstr ''N/A'');
               requirements' = extract_list_items pg pracuj_req_selectors
           in case extract_skills e pg pracuj_skill_selectors of
                Inl ex \<Rightarrow> Inl ex
              | Inr skills' \<Rightarrow>
                  (let description' = or_else (try_selectors pg pracuj_desc_selectors) [];
                       salary' = or_else (try_selectors pg pracuj_salary_selectors) (pstr ''N/A'');
                       experience =
                         extract_experience_level e
                           (title' @ pstr '' '' @ join (pstr '' '') requirements')
                   in case current_url pg of
                        Inl ex \<Rightarrow> Inl ex
                      | Inr current \<Rightarrow>
                          Inr \<lparr> success = True, error = None,
                                portal = Some (pstr ''pracuj''), url = Some current,
                                title = Some title', company = Some company',
                                location = Some location', salary = Some salary',
                                requirements = Some (take 10 requirements'),
                                skills = Some (take 15 skills'),
                                description = Some (take 1500 description'),
                                experience_level = Some experience,
                                raw_requirements =
                                  Some (join (pstr '' '') requirements') \<rparr>)))"

definition scrape_pracuj_selenium :: "env \<Rightarrow> page \<Rightarrow> scrape_result" where
  "scrape_pracuj_selenium e pg =
     (case scrape_pracuj_selenium_try e pg of
        Inl ex \<Rightarrow> failure (str_of_exn ex)
      | Inr r \<Rightarrow> r)"

subsection \<open>_scrape_nofluff_selenium\<close>

text \<open>
  \<open>[elem.text.strip() for elem in elements if elem.text.strip()]\<close>: the first read
  that raises ends the comprehension.
\<close>

fun stripped_texts :: "(exn + pystr) list \<Rightarrow> exn + pystr list" where
  "stripped_texts [] = Inr []"
| "stripped_texts (Inl ex # elements) = Inl ex"
| "stripped_texts (Inr t # elements) =
     (case stripped_texts elements of
        Inl ex \<Rightarrow> Inl ex
      | Inr ts \<Rightarrow> Inr (if strip t \<noteq> [] then strip t # ts else ts))"

text \<open>\<open>find_elements\<close> and the comprehension over what it returns.\<close>

definition texts_of :: "page \<Rightarrow> pystr \<Rightarrow> exn + pystr list" where
  "texts_of pg selector =
     (case find_elements pg selector of
        Inl ex \<Rightarrow> Inl ex
      | Inr elements \<Rightarrow> stripped_texts elements)"

definition scrape_nofluff_selenium_try :: "env \<Rightarrow> page \<Rightarrow> exn + scrape_result" where
  "scrape_nofluff_selenium_try e pg =
     (case wait_until pg (pstr ''h1, .posting-details-title'') of
        Inl ex \<Rightarrow> Inl ex
      | Inr title_text \<Rightarrow>
     (case find_element pg (pstr ''.company-name, .posting-details-company'') of
        Inl ex \<Rightarrow> Inl ex
      | Inr company_text \<Rightarrow>
     (case texts_of pg (pstr ''.posting-technologies .technology'') of
        Inl ex \<Rightarrow> Inl ex
      | Inr skills' \<Rightarrow>
     (case texts_of pg (pstr ''.posting-requirements li'') of
        Inl ex \<Rightarrow> Inl ex
      | Inr requirements' \<Rightarrow>
     (case find_element pg (pstr ''.posting-salary, .salary-range'') of
        Inl ex \<Rightarrow> Inl ex
      | Inr salary_text \<Rightarrow>
     (case current_url pg of
        Inl ex \<Rightarrow> Inl ex
      | Inr current \<Rightarrow>
          Inr \<lparr> success = True, error = None,
                portal = Some (pstr ''nofluff''), url = Some current,
                title = Some (strip title_text), company = Some (strip company_text),
                location = Some (pstr ''Remote/Warsaw''),
                salary = Some (strip salary_text),
                requirements = Some requirements',
                skills = Some skills',
                description = Some (join (pstr '' '') requirements'),
                experience_level =
                  Some (extract_experience_level e (strip title_text)),
                raw_requirements = None \<rparr>))))))"

definition scrape_nofluff_selenium :: "env \<Rightarrow> page \<Rightarrow> scrape_result" where
  "scrape_nofluff_selenium e pg =
     (case scrape_nofluff_selenium_try e pg of
        Inl ex \<Rightarrow> failure (str_of_exn ex)
      | Inr r \<Rightarrow> r)"

subsection \<open>_extract_generic_info\<close>

definition title_tags :: "pystr list" where
  \<open>title_tags =
     [pstr ''h1'', pstr ''[data-test*="title"]'', pstr ''.job-title'', pstr ''.offer-title'']\<close>

text \<open>The loop over \<open>title_tags\<close>; the title starts as \<open>N/A\<close>.\<close>

fun find_title :: "soup \<Rightarrow> pystr list \<Rightarrow> exn + pystr" where
  "find_title sp [] = Inr (pstr ''N/A'')"
| "find_title sp (tag # rest) =
     (case select_one sp tag of
        Inl ex \<Rightarrow> Inl ex
      | Inr None \<Rightarrow> find_title sp rest
      | Inr (Some t) \<Rightarrow> if strip t \<noteq> [] then Inr (strip t) else find_title sp rest)"

definition extract_generic_info_try ::
  "env \<Rightarrow> soup \<Rightarrow> pystr \<Rightarrow> pystr \<Rightarrow> exn + scrape_result" where
  "extract_generic_info_try e sp u p =
     (case find_title sp title_tags of
        Inl ex \<Rightarrow> Inl ex
      | Inr title' \<Rightarrow>
          (case get_text sp of
             Inl ex \<Rightarrow> Inl ex
           | Inr page_text \<Rightarrow>
               (let skills' = extract_skills_from_text e page_text;
                    requirements' = extract_requirements_from_text e page_text;
                    experience =
                      extract_experience_level e (title' @ pstr '' '' @ take 1000 page_text)
                in Inr \<lparr> success = True, error = None, portal = Some p, url = Some u,
                         title = Some title', company = Some (pstr ''N/A''),
                         location = Some (pstr ''N/A''), salary = Some (pstr ''N/A''),
                         requirements = Some requirements', skills = Some skills',
                         description = Some (take 1000 page_text),
                         experience_level = Some experience,
                         raw_requirements = Some (join (pstr '' '') requirements') \<rparr>)))"

definition extract_generic_info :: "env \<Rightarrow> soup \<Rightarrow> pystr \<Rightarrow> pystr \<Rightarrow> scrape_result" where
  "extract_generic_info e sp u p =
     (case extract_generic_info_try e sp u p of
        Inl ex \<Rightarrow> failure_at (str_of_exn ex) p u
      | Inr r \<Rightarrow> r)"

subsection \<open>_scrape_with_requests, scrape_with_selenium, scrape_job, batch_scrape\<close>

definition scrape_with_requests :: "env \<Rightarrow> pystr \<Rightarrow> pystr \<Rightarrow> scrape_result" where
  "scrape_with_requests e u p =
     (case session_get e u of
        Inl ex \<Rightarrow> failure_at (str_of_exn ex) p u
      | Inr sp \<Rightarrow> extract_generic_info e sp u p)"

text \<open>
  The class has no method _scrape_justjoin_selenium, so the attribute lookup of the
  third branch raises this exception.
\<close>

definition no_justjoin_method :: exn where
  "no_justjoin_method =
     Exn AttributeError
       ([39] @ pstr ''AdvancedJobScraper' object has no attribute '_scrape_justjoin_selenium''
        @ [39])"

definition scrape_with_selenium_try ::
  "env \<Rightarrow> driver \<Rightarrow> pystr \<Rightarrow> pystr \<Rightarrow> exn + scrape_result" where
  "scrape_with_selenium_try e d u p =
     (case driver_get d u of
        Inl ex \<Rightarrow> Inl ex
      | Inr pg \<Rightarrow>
          if p = pstr ''pracuj'' then Inr (scrape_pracuj_selenium e pg)
          else if p = pstr ''nofluff'' then Inr (scrape_nofluff_selenium e pg)
          else if p = pstr ''justjoin'' then Inl no_justjoin_method
          else (case page_source pg of
                  Inl ex \<Rightarrow> Inl ex
                | Inr sp \<Rightarrow> Inr (extract_generic_info e sp u p)))"

definition scrape_with_selenium :: "env \<Rightarrow> scraper \<Rightarrow> pystr \<Rightarrow> pystr \<Rightarrow> scrape_result" where
  "scrape_with_selenium e self u p =
     (case driver self of
        None \<Rightarrow> failure (pstr ''Selenium not available'')
      | Some d \<Rightarrow>
          (case scrape_with_selenium_try e d u p of
             Inl ex \<Rightarrow> failure (str_of_exn ex)
           | Inr r \<Rightarrow> r))"

text \<open>
  scrape_job: detect_portal is called outside every try block, so what it raises
  leaves scrape_job.
\<close>

definition selenium_portals :: "pystr list" where
  "selenium_portals = [pstr ''pracuj'', pstr ''nofluff'', pstr ''justjoin'']"

definition scrape_job :: "env \<Rightarrow> scraper \<Rightarrow> pystr \<Rightarrow> exn + scrape_result" where
  "scrape_job e self u =
     (case detect_portal e u of
        Inl ex \<Rightarrow> Inl ex
      | Inr p \<Rightarrow>
          if use_selenium self \<and> p \<in> set selenium_portals
          then (let result = scrape_with_selenium e self u p in
                if success result then Inr result
                else Inr (scrape_with_requests e u p))
          else Inr (scrape_with_requests e u p))"

text \<open>batch_scrape: the loop has no try block; the results are appended in order.\<close>

fun batch_scrape :: "env \<Rightarrow> scraper \<Rightarrow> pystr list \<Rightarrow> exn + scrape_result list" where
  "batch_scrape e self [] = Inr []"
| "batch_scrape e self (u # urls) =
     (case scrape_job e self u of
        Inl ex \<Rightarrow> Inl ex
      | Inr result \<Rightarrow>
          (case batch_scrape e self urls of
             Inl ex \<Rightarrow> Inl ex
           | Inr results \<Rightarrow> Inr (result # results)))"

section \<open>Concrete worlds for the examples\<close>

text \<open>
  The library functions on ASCII input: \<open>str.lower\<close> and \<open>str.isdigit\<close> on ASCII
  code points, and the steps of \<open>urllib.parse.urlsplit\<close> that decide the netloc:
  leading code points up to U+0020 are stripped and every tab, carriage return and
  line feed is removed; the scheme is split off at the first colon when it is a
  letter followed by scheme characters; the netloc runs from \<open>//\<close> to the first of
  \<open>/ ? #\<close>; a netloc with exactly one kind of square bracket raises
  \<open>ValueError('Invalid IPv6 URL')\<close>. Two further checks of urlsplit are not part of
  this world: the check of a bracketed host as an IP literal, made when the netloc
  holds both brackets, and the check of the NFKC form of a non-ASCII netloc. So
  this world stands for the interpreter on ASCII URLs whose netloc does not hold
  both square brackets, which is what every URL of the examples is.
\<close>

definition ascii_lower :: "pystr \<Rightarrow> pystr" where
  "ascii_lower s = map (\<lambda>c. if 65 \<le> c \<and> c \<le> 90 then c + 32 else c) s"

definition ascii_isdigit :: "nat \<Rightarrow> bool" where
  "ascii_isdigit c = (48 \<le> c \<and> c \<le> 57)"

definition ascii_alpha :: "nat \<Rightarrow> bool" where
  "ascii_alpha c = ((65 \<le> c \<and> c \<le> 90) \<or> (97 \<le> c \<and> c \<le> 122))"

definition scheme_char :: "nat \<Rightarrow> bool" where
  "scheme_char c = (ascii_alpha c \<or> ascii_isdigit c \<or> c = 43 \<or> c = 45 \<or> c = 46)"

definition clean_url :: "pystr \<Rightarrow> pystr" where
  "clean_url u = filter (\<lambda>c. c \<noteq> 9 \<and> c \<noteq> 13 \<and> c \<noteq> 10) (dropWhile (\<lambda>c. c \<le> 32) u)"

definition after_scheme :: "pystr \<Rightarrow> pystr" where
  "after_scheme u =
     (let pre = takeWhile (\<lambda>c. c \<noteq> 58) u in
      if length pre < length u \<and> pre \<noteq> [] \<and> ascii_alpha (hd pre) \<and> list_all scheme_char pre
      then drop (length pre + 1) u else u)"

definition sample_urlparse_netloc :: "pystr \<Rightarrow> exn + pystr" where
  "sample_urlparse_netloc u =
     (let rest = after_scheme (clean_url u) in
      if take 2 rest = pstr ''//''
      then (let netloc = takeWhile (\<lambda>c. c \<noteq> 47 \<and> c \<noteq> 63 \<and> c \<noteq> 35) (drop 2 rest) in
            if (91 \<in> set netloc) \<noteq> (93 \<in> set netloc)
            then Inl (Exn ValueError (pstr ''Invalid IPv6 URL''))
            else Inr netloc)
      else Inr [])"


text \<open>A static page with a heading and no requirement block.\<close>

definition sample_soup :: soup where
  "sample_soup =
     \<lparr> select_one =
         (\<lambda>sel. if sel = pstr ''h1'' then Inr (Some (pstr '' Python Developer '')) else Inr None),
       get_text = Inr (pstr ''Python Developer wanted. We use Django and Docker.'') \<rparr>"

text \<open>A static page on which no title selector matches.\<close>

definition untitled_soup :: soup where
  "untitled_soup =
     \<lparr> select_one = (\<lambda>sel. Inr None),
       get_text = Inr (pstr ''We build software.'') \<rparr>"

text \<open>
  A machine without a Chrome driver. Its regular expressions find nothing, which is
  what \<open>re.findall\<close> gives on the page texts above: none holds a trigger phrase of the
  three patterns. \<open>list(set(xs))\<close> keeps one copy of each element.
\<close>

definition sample_env :: env where
  "sample_env =
     \<lparr> urlparse_netloc = sample_urlparse_netloc,
       lower = ascii_lower,
       isdigit = ascii_isdigit,
       re_findall = (\<lambda>pattern text. []),
       re_split = (\<lambda>m. [m]),
       set_iter = remdups,
       webdriver_Chrome =
         (\<lambda>hl. Inl (Exn WebDriverException (pstr ''Message: unable to obtain driver for chrome''))),
       session_get = (\<lambda>u. Inr sample_soup) \<rparr>"

text \<open>A rendered page without any of the elements the strategies look for.\<close>

definition bare_page :: page where
  "bare_page =
     \<lparr> wait_until = (\<lambda>sel. Inl (Exn TimeoutException (pstr ''Message: ''))),
       find_element =
         (\<lambda>sel. Inl (Exn NoSuchElementException (pstr ''Message: no such element''))),
       find_elements = (\<lambda>sel. Inr []),
       body_text = Inr (pstr ''We build software.''),
       current_url = Inr (pstr ''https://www.pracuj.pl/praca/1''),
       page_source = Inr untitled_soup \<rparr>"

definition sample_driver :: driver where
  "sample_driver = \<lparr> execute_script = Inr (), driver_get = (\<lambda>u. Inr bare_page) \<rparr>"

text \<open>The same machine with a working driver.\<close>

definition selenium_env :: env where
  "selenium_env = sample_env \<lparr> webdriver_Chrome := (\<lambda>hl. Inr sample_driver) \<rparr>"

text \<open>
  A rendered pracuj page with two requirement bullets, two skill tags and a body
  text that names one more technology.
\<close>

definition rich_page :: page where
  "rich_page =
     bare_page \<lparr> find_elements :=
         (\<lambda>sel. if sel = pstr ''.requirements li''
                then Inr [Inr (pstr ''Python 3 years''), Inr (pstr ''Docker and Kubernetes'')]
                else if sel = pstr ''.skill-tag''
                then Inr [Inr (pstr ''Django''), Inr (pstr ''Docker'')]
                else Inr []),
       body_text := Inr (pstr ''We use Redis.'') \<rparr>"

text \<open>A static page with a heading and a requirement block.\<close>

definition hiring_text :: pystr where
  "hiring_text = pstr ''Requirements: Python 3 years, Docker and Kubernetes we offer Redis''"

definition hiring_soup :: soup where
  "hiring_soup =
     \<lparr> select_one =
         (\<lambda>sel. if sel = pstr ''h1'' then Inr (Some (pstr ''Python Developer'')) else Inr None),
       get_text = Inr hiring_text \<rparr>"

text \<open>
  A machine on which \<open>list(set(xs))\<close> gives the elements of \<open>xs\<close>, each once, from
  the last to the first, and whose regular expressions answer as the interpreter
  does on \<open>hiring_text\<close>: the first pattern matches once, capturing the block
  between the colon and \<open>we offer\<close>, the other two patterns match nothing, and the
  split of the captured block at its comma gives two pieces.
\<close>

definition hiring_env :: env where
  "hiring_env =
     sample_env \<lparr>
       re_findall :=
         (\<lambda>pattern text.
            if pattern = Pattern_requirements \<and> text = hiring_text
            then [pstr ''Python 3 years, Docker and Kubernetes ''] else []),
       re_split :=
         (\<lambda>m. if m = pstr ''Python 3 years, Docker and Kubernetes ''
              then [pstr ''Python 3 years'', pstr ''Docker and Kubernetes ''] else [m]),
       set_iter := (\<lambda>xs. rev (remdups xs)) \<rparr>"

text \<open>A rendered pracuj page whose requirement list repeats one bullet.\<close>

definition duplicate_page :: page where
  "duplicate_page =
     bare_page \<lparr> find_elements :=
       (\<lambda>sel. if sel = pstr ''.requirements li''
              then Inr [Inr (pstr ''Python 3 years''), Inr (pstr ''Python 3 years'')]
              else Inr []) \<rparr>"

text \<open>A rendered page whose only list item has six characters.\<close>

definition short_item_page :: page where
  "short_item_page =
     bare_page \<lparr> find_elements :=
       (\<lambda>sel. if sel = pstr ''.requirements li'' then Inr [Inr (pstr ''Python'')] else Inr []) \<rparr>"

text \<open>A machine on which the fetch runs out of memory: \<open>str(MemoryError())\<close> is empty.\<close>

definition out_of_memory_env :: env where
  "out_of_memory_env = sample_env \<lparr> session_get := (\<lambda>u. Inl (Exn MemoryError [])) \<rparr>"

text \<open>A machine whose fetch is refused by the server.\<close>

definition forbidden_env :: env where
  "forbidden_env =
     sample_env \<lparr> session_get :=
       (\<lambda>u. Inl (Exn RequestException (pstr ''403 Client Error: Forbidden for url''))) \<rparr>"

section \<open>Notions used in the statements\<close>

text \<open>The content fields of a result are all absent.\<close>

definition content_absent :: "scrape_result \<Rightarrow> bool" where
  "content_absent r =
     (title r = None \<and> company r = None \<and> location r = None \<and> salary r = None \<and>
      requirements r = None \<and> skills r = None \<and> description r = None \<and>
      experience_level r = None)"

text \<open>\<open>r\<close> is one of the two failure dicts, with \<open>m\<close> as its error text.\<close>

definition failure_with :: "pystr \<Rightarrow> scrape_result \<Rightarrow> bool" where
  "failure_with m r = (r = failure m \<or> (\<exists>p u. r = failure_at m p u))"

text \<open>The exceptions a document, a page, a driver and the fetch can raise.\<close>

definition soup_raises :: "soup \<Rightarrow> exn \<Rightarrow> bool" where
  "soup_raises sp ex = ((\<exists>sel. select_one sp sel = Inl ex) \<or> get_text sp = Inl ex)"

definition page_raises :: "page \<Rightarrow> exn \<Rightarrow> bool" where
  "page_raises pg ex =
     ((\<exists>sel. wait_until pg sel = Inl ex) \<or> (\<exists>sel. find_element pg sel = Inl ex) \<or>
      (\<exists>sel. find_elements pg sel = Inl ex) \<or>
      (\<exists>sel elements. find_elements pg sel = Inr elements \<and> Inl ex \<in> set elements) \<or>
      body_text pg = Inl ex \<or> current_url pg = Inl ex \<or> page_source pg = Inl ex \<or>
      (\<exists>sp. page_source pg = Inr sp \<and> soup_raises sp ex))"

definition driver_raises :: "driver \<Rightarrow> exn \<Rightarrow> bool" where
  "driver_raises d ex =
     (\<exists>u. driver_get d u = Inl ex \<or> (\<exists>pg. driver_get d u = Inr pg \<and> page_raises pg ex))"

definition env_raises :: "env \<Rightarrow> exn \<Rightarrow> bool" where
  "env_raises e ex =
     (\<exists>u. session_get e u = Inl ex \<or> (\<exists>sp. session_get e u = Inr sp \<and> soup_raises sp ex))"

text \<open>
  The exceptions that can reach a handler of the pipeline of a scraper \<open>self\<close> in the
  world \<open>e\<close>, or of a strategy run on the page \<open>pg\<close> or the document \<open>sp\<close>.
\<close>

definition world_raises :: "env \<Rightarrow> scraper \<Rightarrow> page \<Rightarrow> soup \<Rightarrow> exn \<Rightarrow> bool" where
  "world_raises e self pg sp ex =
     (env_raises e ex \<or> (\<exists>d. driver self = Some d \<and> driver_raises d ex) \<or>
      page_raises pg ex \<or> soup_raises sp ex)"

text \<open>
  \<open>r\<close> is what one stage of the pipeline returns: a strategy on the page \<open>pg\<close>, the
  Selenium stage, the generic extractor on the document \<open>sp\<close>, the requests stage, or
  scrape_job itself.
\<close>

definition stage_result ::
  "env \<Rightarrow> scraper \<Rightarrow> page \<Rightarrow> soup \<Rightarrow> pystr \<Rightarrow> pystr \<Rightarrow> scrape_result \<Rightarrow> bool" where
  "stage_result e self pg sp u p r =
     (r = scrape_pracuj_selenium e pg \<or> r = scrape_nofluff_selenium e pg \<or>
      r = scrape_with_selenium e self u p \<or> r = extract_generic_info e sp u p \<or>
      r = scrape_with_requests e u p \<or> scrape_job e self u = Inr r)"

text \<open>
  What Python promises of \<open>list(set(xs))\<close>: every element of \<open>xs\<close>, once, in some
  order.
\<close>

definition set_iter_ok :: "env \<Rightarrow> bool" where
  "set_iter_ok e = (\<forall>xs. distinct (set_iter e xs) \<and> set (set_iter e xs) = set xs)"

text \<open>
  A selector group that leaves the list of _extract_list_items empty: the query
  raises, or no text was accepted when its loop ended.
\<close>

definition no_items :: "page \<Rightarrow> pystr \<Rightarrow> bool" where
  "no_items pg selector =
     (case find_elements pg selector of
        Inl ex \<Rightarrow> True
      | Inr elements \<Rightarrow> fst (collect_texts item_ok elements []) = [])"

section \<open>Facts about the string operations\<close>

lemma startswith_iff: "startswith s sub \<longleftrightarrow> (\<exists>b. s = sub @ b)"
  by (induction s sub rule: startswith.induct) auto

lemma py_in_iff: "py_in sub s \<longleftrightarrow> (\<exists>a b. s = a @ sub @ b)"
proof (induction s)
  case Nil
  then show ?case by auto
next
  case (Cons c cs)
  show ?case
  proof
    assume "py_in sub (c # cs)"
    then consider "startswith (c # cs) sub" | "py_in sub cs" by auto
    then show "\<exists>a b. c # cs = a @ sub @ b"
    proof cases
      case 1
      then obtain b where "c # cs = sub @ b" by (auto simp: startswith_iff)
      then have "c # cs = [] @ sub @ b" by simp
      then show ?thesis by blast
    next
      case 2
      then obtain a b where "cs = a @ sub @ b" using Cons.IH by auto
      then have "c # cs = (c # a) @ sub @ b" by simp
      then show ?thesis by blast
    qed
  next
    assume "\<exists>a b. c # cs = a @ sub @ b"
    then obtain a b where ab: "c # cs = a @ sub @ b" by auto
    show "py_in sub (c # cs)"
    proof (cases a)
      case Nil
      with ab have "startswith (c # cs) sub" by (auto simp: startswith_iff)
      then show ?thesis by simp
    next
      case (Cons a0 as)
      with ab have "cs = as @ sub @ b" by simp
      then have "py_in sub cs" using Cons.IH by auto
      then show ?thesis by simp
    qed
  qed
qed

lemmas sample_url_defs =
  sample_urlparse_netloc_def clean_url_def after_scheme_def scheme_char_def ascii_alpha_def
  ascii_isdigit_def

section \<open>The experience-level classifier\<close>

text \<open>
  Claim C3, as amended. The classifier is a function of the text alone, with strict
  priority Senior, Junior, Mid over the lower-cased text: a non-empty text with a
  Senior term gives Senior, also when a Junior term is present; a non-empty text
  with a Junior term and no Senior term gives Junior; a non-empty text with neither
  gives Mid, whether a Mid term is present or no term at all. The empty text is
  answered before any keyword is looked for, and gives Unknown.
\<close>

theorem experience_level_priority:
  "extract_experience_level e [] = pstr ''Unknown'' \<and>
   (txt \<noteq> [] \<longrightarrow> any_in senior_words (lower e txt) \<longrightarrow>
      extract_experience_level e txt = pstr ''Senior'') \<and>
   (txt \<noteq> [] \<longrightarrow> \<not> any_in senior_words (lower e txt) \<longrightarrow>
      any_in junior_words (lower e txt) \<longrightarrow>
      extract_experience_level e txt = pstr ''Junior'') \<and>
   (txt \<noteq> [] \<longrightarrow> \<not> any_in senior_words (lower e txt) \<longrightarrow>
      \<not> any_in junior_words (lower e txt) \<longrightarrow>
      extract_experience_level e txt = pstr ''Mid'')"
  by (simp add: extract_experience_level_def Let_def)

text \<open>A text with a Senior and a Junior term: the priority decides for Senior.\<close>

theorem experience_level_priority_witness:
  "pstr ''Senior or junior developer'' \<noteq> [] \<and>
   any_in senior_words (lower sample_env (pstr ''Senior or junior developer'')) \<and>
   any_in junior_words (lower sample_env (pstr ''Senior or junior developer'')) \<and>
   extract_experience_level sample_env (pstr ''Senior or junior developer'') = pstr ''Senior''"
proof -
  let ?t = "pstr ''Senior or junior developer''"
  have ne: "?t \<noteq> []" by simp
  have low: "lower sample_env ?t = pstr ''senior or junior developer''"
    by (simp add: sample_env_def ascii_lower_def)
  have s: "any_in senior_words (lower sample_env ?t)"
    unfolding low by (simp add: any_in_def senior_words_def)
  have j: "any_in junior_words (lower sample_env ?t)"
    unfolding low by (simp add: any_in_def junior_words_def)
  from experience_level_priority [of sample_env ?t] ne s
  have "extract_experience_level sample_env ?t = pstr ''Senior''" by blast
  with ne s j show ?thesis by blast
qed

text \<open>
  The claim as written fails at the empty text: it holds no term of any of the three
  sets, and the answer is not Mid.
\<close>

theorem empty_text_is_not_mid:
  "\<not> any_in senior_words (lower sample_env []) \<and>
   \<not> any_in junior_words (lower sample_env []) \<and>
   \<not> any_in mid_words (lower sample_env []) \<and>
   extract_experience_level sample_env [] \<noteq> pstr ''Mid''"
  by (simp add: extract_experience_level_def sample_env_def ascii_lower_def any_in_def
      senior_words_def junior_words_def mid_words_def)

section \<open>The portal classifier\<close>





text \<open>
  A host that holds the domains of two portals gets the identifier of the earlier
  table entry, here for a host of justjoin.it.
\<close>

lemma second_match_ignored:
  "urlparse_netloc sample_env (pstr ''https://pracuj.pl.justjoin.it/offers/1'')
     = Inr (pstr ''pracuj.pl.justjoin.it'') \<and>
   (pstr ''justjoin.it'', pstr ''justjoin'') \<in> set portals \<and>
   py_in (pstr ''justjoin.it'') (lower sample_env (pstr ''pracuj.pl.justjoin.it'')) \<and>
   detect_portal sample_env (pstr ''https://pracuj.pl.justjoin.it/offers/1'') = Inr (pstr ''pracuj'') \<and>
   pstr ''pracuj'' \<noteq> pstr ''justjoin''"
  by (simp add: detect_portal_def sample_env_def sample_url_defs ascii_lower_def portals_def)

text \<open>Leading white space is stripped before the URL is split.\<close>

lemma leading_space: "urlparse_netloc sample_env (pstr '' https://pracuj.pl/x'') = Inr (pstr ''pracuj.pl'')"
  by (simp add: sample_env_def sample_url_defs)

text \<open>
  detect_portal has no handler: it raises exactly when urlparse does, as on a URL
  with an unmatched square bracket in its netloc.
\<close>

lemma detect_portal_Inl_iff:
  "detect_portal e u = Inl ex \<longleftrightarrow> urlparse_netloc e u = Inl ex"
  by (auto simp: detect_portal_def split: sum.splits)

lemma detect_portal_unmatched_bracket:
  "detect_portal sample_env (pstr ''http://['') = Inl (Exn ValueError (pstr ''Invalid IPv6 URL''))"
  by (simp add: detect_portal_def sample_env_def sample_url_defs)

section \<open>scrape_job and batch_scrape\<close>

lemma scrape_job_Inl_iff:
  "scrape_job e self u = Inl ex \<longleftrightarrow> detect_portal e u = Inl ex"
  by (auto simp: scrape_job_def Let_def split: sum.splits)

text \<open>
  Claim C6: scrape_job returns a result for every URL, malformed ones included, and
  never raises. The code misses one case. scrape_job calls detect_portal outside
  every try block: on the URL \<open>http://[\<close> the ValueError of urlparse leaves
  scrape_job, and no result is returned.
\<close>

theorem scrape_job_raises:
  "scrape_job selenium_env (init selenium_env True True) (pstr ''http://['')
     = Inl (Exn ValueError (pstr ''Invalid IPv6 URL''))"
  by (simp add: scrape_job_Inl_iff detect_portal_def selenium_env_def sample_env_def
      sample_url_defs)

lemma batch_scrape_aborts:
  "scrape_job e self u2 = Inl ex \<Longrightarrow> detect_portal e u1 = Inr p \<Longrightarrow>
   batch_scrape e self [u1, u2] = Inl ex"
  by (auto simp: scrape_job_def Let_def split: sum.splits)

text \<open>When no URL makes scrape_job raise, the results are those of the URLs, in order.\<close>

lemma batch_scrape_returns:
  "list_all (\<lambda>u. \<exists>r. scrape_job e self u = Inr r) urls \<Longrightarrow>
   \<exists>rs. batch_scrape e self urls = Inr rs \<and> map Inr rs = map (scrape_job e self) urls"
  by (induction urls) auto

text \<open>
  Claim C5: batch_scrape returns one result for each URL, in order, and a URL that
  fails gives a success=False result at its index without ending the batch. The
  code misses one case. batch_scrape has no handler around scrape_job: the second
  URL of this batch makes urlparse raise, and the whole batch ends with that
  exception instead of a list of two results.
\<close>

theorem batch_scrape_raises:
  "batch_scrape selenium_env (init selenium_env True True)
     [pstr ''https://www.pracuj.pl/praca/1'', pstr ''http://['']
     = Inl (Exn ValueError (pstr ''Invalid IPv6 URL''))"
proof -
  have 1: "detect_portal selenium_env (pstr ''https://www.pracuj.pl/praca/1'')
             = Inr (pstr ''pracuj'')"
    by (simp add: detect_portal_def selenium_env_def sample_env_def sample_url_defs
        ascii_lower_def portals_def)
  have 2: "scrape_job selenium_env (init selenium_env True True) (pstr ''http://['')
             = Inl (Exn ValueError (pstr ''Invalid IPv6 URL''))"
    by (simp add: scrape_job_Inl_iff detect_portal_def selenium_env_def sample_env_def
        sample_url_defs)
  show ?thesis by (rule batch_scrape_aborts [OF 2 1])
qed

section \<open>The justjoin portal\<close>

lemma selenium_justjoin_fails:
  "\<not> success (scrape_with_selenium e self u (pstr ''justjoin''))"
  by (simp add: scrape_with_selenium_def scrape_with_selenium_try_def failure_def
      split: option.splits sum.splits)

text \<open>
  Claim C10. For a URL classified as justjoin the Selenium branch never succeeds:
  without a driver it returns the fixed failure, with one it fails on the page load
  or on the missing method _scrape_justjoin_selenium. So scrape_job returns what
  _scrape_with_requests returns, whether Selenium is enabled or not.
\<close>

theorem justjoin_uses_requests:
  assumes "detect_portal e u = Inr (pstr ''justjoin'')"
  shows "\<not> success (scrape_with_selenium e self u (pstr ''justjoin'')) \<and>
         scrape_job e self u = Inr (scrape_with_requests e u (pstr ''justjoin''))"
  using assms selenium_justjoin_fails [of e self u]
  by (simp add: scrape_job_def Let_def)

lemma init_selenium_env:
  "init selenium_env True True
     = \<lparr> use_selenium = True, headless = True, driver = Some sample_driver \<rparr>"
  by (simp add: init_def setup_selenium_def selenium_env_def sample_driver_def)

text \<open>A justjoin URL on a machine whose driver works.\<close>

theorem justjoin_uses_requests_witness:
  "detect_portal selenium_env (pstr ''https://justjoin.it/offers/dev'') = Inr (pstr ''justjoin'') \<and>
   use_selenium (init selenium_env True True) \<and>
   \<not> success (scrape_with_selenium selenium_env (init selenium_env True True)
        (pstr ''https://justjoin.it/offers/dev'') (pstr ''justjoin'')) \<and>
   scrape_job selenium_env (init selenium_env True True) (pstr ''https://justjoin.it/offers/dev'')
     = Inr (scrape_with_requests selenium_env (pstr ''https://justjoin.it/offers/dev'')
         (pstr ''justjoin''))"
proof -
  have d: "detect_portal selenium_env (pstr ''https://justjoin.it/offers/dev'')
             = Inr (pstr ''justjoin'')"
    by (simp add: detect_portal_def selenium_env_def sample_env_def sample_url_defs
        ascii_lower_def portals_def)
  have u: "use_selenium (init selenium_env True True)"
    by (simp add: init_selenium_env)
  from justjoin_uses_requests [OF d, of "init selenium_env True True"] d u
  show ?thesis by blast
qed

section \<open>Driver creation fails\<close>

text \<open>
  Claim C8. When webdriver.Chrome raises in a scraper built with use_selenium=True,
  _setup_selenium turns use_selenium off, and scrape_job on a URL that urlparse
  accepts returns what _scrape_with_requests returns. When the fetch returns a
  document whose title loop and get_text return, that result has success=True and
  the title the loop found; for a document with an h1 element of non-blank text the
  loop finds the stripped text of that element.
\<close>

theorem degrades_without_driver:
  assumes "webdriver_Chrome e hl = Inl ex"
      and "detect_portal e u = Inr p"
  shows "\<not> use_selenium (init e True hl) \<and>
         scrape_job e (init e True hl) u = Inr (scrape_with_requests e u p) \<and>
         (session_get e u = Inr sp \<longrightarrow> find_title sp title_tags = Inr t \<longrightarrow>
          get_text sp = Inr txt \<longrightarrow>
            success (scrape_with_requests e u p) \<and>
            title (scrape_with_requests e u p) = Some t) \<and>
         (select_one sp (pstr ''h1'') = Inr (Some h) \<longrightarrow> strip h \<noteq> [] \<longrightarrow>
            find_title sp title_tags = Inr (strip h))"
  using assms
  by (simp add: init_def setup_selenium_def scrape_job_def scrape_with_requests_def
      extract_generic_info_def extract_generic_info_try_def title_tags_def Let_def)

text \<open>A machine without a Chrome driver and a static page with a heading.\<close>

theorem degrades_without_driver_witness:
  "webdriver_Chrome sample_env True
     = Inl (Exn WebDriverException (pstr ''Message: unable to obtain driver for chrome'')) \<and>
   detect_portal sample_env (pstr ''https://example.com/jobs/1'') = Inr (pstr ''unknown'') \<and>
   session_get sample_env (pstr ''https://example.com/jobs/1'') = Inr sample_soup \<and>
   select_one sample_soup (pstr ''h1'') = Inr (Some (pstr '' Python Developer '')) \<and>
   strip (pstr '' Python Developer '') = pstr ''Python Developer'' \<and>
   scrape_job sample_env (init sample_env True True) (pstr ''https://example.com/jobs/1'')
     = Inr (scrape_with_requests sample_env (pstr ''https://example.com/jobs/1'') (pstr ''unknown'')) \<and>
   success (scrape_with_requests sample_env (pstr ''https://example.com/jobs/1'') (pstr ''unknown'')) \<and>
   title (scrape_with_requests sample_env (pstr ''https://example.com/jobs/1'') (pstr ''unknown''))
     = Some (pstr ''Python Developer'')"
proof -
  let ?u = "pstr ''https://example.com/jobs/1''"
  have c: "webdriver_Chrome sample_env True
     = Inl (Exn WebDriverException (pstr ''Message: unable to obtain driver for chrome''))"
    by (simp add: sample_env_def)
  have d: "detect_portal sample_env ?u = Inr (pstr ''unknown'')"
    by (simp add: detect_portal_def sample_env_def sample_url_defs ascii_lower_def portals_def)
  have g: "session_get sample_env ?u = Inr sample_soup"
    by (simp add: sample_env_def)
  have h: "select_one sample_soup (pstr ''h1'') = Inr (Some (pstr '' Python Developer ''))"
    by (simp add: sample_soup_def)
  have s: "strip (pstr '' Python Developer '') = pstr ''Python Developer''"
    by (simp add: strip_def isspace_def)
  have n: "strip (pstr '' Python Developer '') \<noteq> []"
    unfolding s by simp
  have x: "get_text sample_soup = Inr (pstr ''Python Developer wanted. We use Django and Docker.'')"
    by (simp add: sample_soup_def)
  note inst = degrades_without_driver [OF c d, of sample_soup
      "strip (pstr '' Python Developer '')" _ "pstr '' Python Developer ''"]
  from inst h n
  have f: "find_title sample_soup title_tags = Inr (strip (pstr '' Python Developer ''))"
    by blast
  from inst g f x
  have "scrape_job sample_env (init sample_env True True) ?u
          = Inr (scrape_with_requests sample_env ?u (pstr ''unknown'')) \<and>
        success (scrape_with_requests sample_env ?u (pstr ''unknown'')) \<and>
        title (scrape_with_requests sample_env ?u (pstr ''unknown''))
          = Some (strip (pstr '' Python Developer ''))"
    by blast
  with c d g h s show ?thesis by simp
qed

section \<open>List-field extraction\<close>

lemma collect_texts_all:
  "list_all P items \<Longrightarrow> (\<And>t. ok t \<Longrightarrow> P t) \<Longrightarrow>
   list_all P (fst (collect_texts ok elements items))"
  by (induction ok elements items rule: collect_texts.induct) (auto simp: Let_def)

lemma selector_loop_all:
  "list_all P items \<Longrightarrow> (\<And>t. ok t \<Longrightarrow> P t) \<Longrightarrow>
   list_all P (selector_loop ok pg sels items)"
proof (induction sels arbitrary: items)
  case Nil
  then show ?case by simp
next
  case (Cons s sels)
  show ?case
  proof (cases "find_elements pg s")
    case (Inl ex)
    with Cons show ?thesis by simp
  next
    case (Inr elements)
    obtain items' x where c: "collect_texts ok elements items = (items', x)"
      by (cases "collect_texts ok elements items")
    have "list_all P (fst (collect_texts ok elements items))"
      using Cons.prems by (intro collect_texts_all) auto
    with c have a: "list_all P items'" by simp
    have "list_all P (selector_loop ok pg sels items')"
      using a Cons.prems(2) by (intro Cons.IH) auto
    with Inr c a show ?thesis by (cases x) auto
  qed
qed

lemma collect_texts_map_Inr:
  "collect_texts ok (map Inr texts) items = (items @ filter ok (map strip texts), None)"
  by (induction texts arbitrary: items) (auto simp: Let_def)

lemma selector_loop_skip:
  "list_all (no_items pg) pre \<Longrightarrow>
   selector_loop item_ok pg (pre @ rest) [] = selector_loop item_ok pg rest []"
proof (induction pre)
  case Nil
  then show ?case by simp
next
  case (Cons s pre)
  then have n: "no_items pg s" and IH: "selector_loop item_ok pg (pre @ rest) [] = selector_loop item_ok pg rest []"
    by auto
  show ?case
  proof (cases "find_elements pg s")
    case (Inl ex)
    with IH show ?thesis by simp
  next
    case (Inr elements)
    with n have "fst (collect_texts item_ok elements []) = []" by (simp add: no_items_def)
    then obtain x where "collect_texts item_ok elements [] = ([], x)"
      by (cases "collect_texts item_ok elements []") auto
    with Inr IH show ?thesis by (cases x) auto
  qed
qed

text \<open>
  Claim C9, as amended. _extract_list_items returns at most ten texts, each of them a
  stripped element text with more than 5 and fewer than 200 characters. When the
  groups before a group leave the list empty, and the elements of that group are
  all read without an exception and give at least one accepted text, the result is
  the first ten accepted texts of that group, whatever groups follow it.
\<close>

theorem list_items_first_group:
  "length (extract_list_items pg sels) \<le> 10 \<and>
   list_all (\<lambda>t. 5 < length t \<and> length t < 200) (extract_list_items pg sels) \<and>
   (list_all (no_items pg) pre \<longrightarrow> find_elements pg s = Inr (map Inr texts) \<longrightarrow>
    filter item_ok (map strip texts) \<noteq> [] \<longrightarrow>
      extract_list_items pg (pre @ s # post) = take 10 (filter item_ok (map strip texts)))"
proof (intro conjI impI)
  show "length (extract_list_items pg sels) \<le> 10"
    by (simp add: extract_list_items_def)
  have "list_all (\<lambda>t. 5 < length t \<and> length t < 200) (selector_loop item_ok pg sels [])"
    by (rule selector_loop_all) (auto simp: item_ok_def)
  then show "list_all (\<lambda>t. 5 < length t \<and> length t < 200) (extract_list_items pg sels)"
    by (auto simp: extract_list_items_def list_all_iff dest: in_set_takeD)
next
  assume pre: "list_all (no_items pg) pre"
    and s: "find_elements pg s = Inr (map Inr texts)"
    and ne: "filter item_ok (map strip texts) \<noteq> []"
  have "selector_loop item_ok pg (pre @ s # post) [] = selector_loop item_ok pg (s # post) []"
    by (rule selector_loop_skip [OF pre])
  also have "\<dots> = filter item_ok (map strip texts)"
    using s ne by (simp add: collect_texts_map_Inr)
  finally show "extract_list_items pg (pre @ s # post) = take 10 (filter item_ok (map strip texts))"
    by (simp add: extract_list_items_def)
qed

text \<open>
  The claim as written fails on the lower bound: a text of six characters is
  accepted, which is below the ten characters the claim gives.
\<close>

theorem six_characters_accepted:
  "extract_list_items short_item_page pracuj_req_selectors = [pstr ''Python''] \<and>
   length (pstr ''Python'') < 10"
  by (simp add: extract_list_items_def short_item_page_def bare_page_def pracuj_req_selectors_def
      item_ok_def strip_def isspace_def Let_def)

text \<open>
  The page with one item in its second group: the first group leaves the list
  empty, the second gives the result, the third and fourth are not asked.
\<close>

theorem list_items_first_group_witness:
  "list_all (no_items short_item_page) [hd pracuj_req_selectors] \<and>
   find_elements short_item_page (pstr ''.requirements li'') = Inr (map Inr [pstr ''Python'']) \<and>
   filter item_ok (map strip [pstr ''Python'']) = [pstr ''Python''] \<and>
   pracuj_req_selectors = [hd pracuj_req_selectors] @ pstr ''.requirements li'' # drop 2 pracuj_req_selectors \<and>
   extract_list_items short_item_page pracuj_req_selectors = [pstr ''Python''] \<and>
   length (extract_list_items short_item_page pracuj_req_selectors) \<le> 10 \<and>
   list_all (\<lambda>t. 5 < length t \<and> length t < 200)
     (extract_list_items short_item_page pracuj_req_selectors)"
proof -
  let ?pre = "[hd pracuj_req_selectors]"
  let ?post = "drop 2 pracuj_req_selectors"
  have split: "pracuj_req_selectors = ?pre @ pstr ''.requirements li'' # ?post"
    by (simp add: pracuj_req_selectors_def)
  have pre: "list_all (no_items short_item_page) ?pre"
    by (simp add: no_items_def short_item_page_def bare_page_def pracuj_req_selectors_def)
  have s: "find_elements short_item_page (pstr ''.requirements li'') = Inr (map Inr [pstr ''Python''])"
    by (simp add: short_item_page_def bare_page_def)
  have f: "filter item_ok (map strip [pstr ''Python'']) = [pstr ''Python'']"
    by (simp add: item_ok_def strip_def isspace_def)
  then have ne: "filter item_ok (map strip [pstr ''Python'']) \<noteq> []" by simp
  note inst = list_items_first_group [of short_item_page "?pre @ pstr ''.requirements li'' # ?post"
      ?pre "pstr ''.requirements li''" "[pstr ''Python'']" ?post]
  from inst pre s ne
  have "extract_list_items short_item_page (?pre @ pstr ''.requirements li'' # ?post)
          = take 10 (filter item_ok (map strip [pstr ''Python'']))"
    by blast
  then have r: "extract_list_items short_item_page pracuj_req_selectors = [pstr ''Python'']"
    using split f by simp
  from inst have "length (extract_list_items short_item_page (?pre @ pstr ''.requirements li'' # ?post)) \<le> 10 \<and>
     list_all (\<lambda>t. 5 < length t \<and> length t < 200)
       (extract_list_items short_item_page (?pre @ pstr ''.requirements li'' # ?post))"
    by blast
  then have b: "length (extract_list_items short_item_page pracuj_req_selectors) \<le> 10 \<and>
     list_all (\<lambda>t. 5 < length t \<and> length t < 200)
       (extract_list_items short_item_page pracuj_req_selectors)"
    using split by simp
  from pre s f split r b show ?thesis by blast
qed

section \<open>What the strategies return\<close>

lemma pracuj_try_success: "scrape_pracuj_selenium_try e pg = Inr r \<Longrightarrow> success r"
  by (auto simp: scrape_pracuj_selenium_try_def Let_def split: sum.splits)

lemma pracuj_success_iff:
  "success (scrape_pracuj_selenium e pg) \<longleftrightarrow> (\<exists>r. scrape_pracuj_selenium_try e pg = Inr r)"
  by (auto simp: scrape_pracuj_selenium_def failure_def pracuj_try_success split: sum.splits)

lemma generic_try_success: "extract_generic_info_try e sp u p = Inr r \<Longrightarrow> success r"
  by (auto simp: extract_generic_info_try_def Let_def split: sum.splits)

lemma generic_success_iff:
  "success (extract_generic_info e sp u p) \<longleftrightarrow> (\<exists>r. extract_generic_info_try e sp u p = Inr r)"
  by (auto simp: extract_generic_info_def failure_at_def failure_def generic_try_success
      split: sum.splits)

lemma pracuj_returns:
  assumes "pracuj_title pg = Inr t" and "body_text pg = Inr b" and "current_url pg = Inr c"
  shows "success (scrape_pracuj_selenium e pg) \<and>
         title (scrape_pracuj_selenium e pg) = Some t \<and>
         requirements (scrape_pracuj_selenium e pg)
           = Some (take 10 (extract_list_items pg pracuj_req_selectors))"
  using assms
  by (simp add: scrape_pracuj_selenium_def scrape_pracuj_selenium_try_def extract_skills_def
      Let_def)


lemma generic_returns:
  assumes "find_title sp title_tags = Inr t" and "get_text sp = Inr x"
  shows "success (extract_generic_info e sp u p) \<and> title (extract_generic_info e sp u p) = Some t"
  using assms by (simp add: extract_generic_info_def extract_generic_info_try_def Let_def)


lemma nofluff_try_success: "scrape_nofluff_selenium_try e pg = Inr r \<Longrightarrow> success r"
  by (auto simp: scrape_nofluff_selenium_try_def split: sum.splits)

lemma nofluff_success_iff:
  "success (scrape_nofluff_selenium e pg) \<longleftrightarrow> (\<exists>r. scrape_nofluff_selenium_try e pg = Inr r)"
  by (auto simp: scrape_nofluff_selenium_def failure_def nofluff_try_success split: sum.splits)




lemma pracuj_title_timeout:
  "wait_until pg pracuj_title_wait = Inl ex \<Longrightarrow> class_of_exn ex = TimeoutException \<Longrightarrow>
   try_selectors pg pracuj_title_selectors = None \<Longrightarrow> pracuj_title pg = Inr (pstr ''N/A'')"
  by (simp add: pracuj_title_def)

subsection \<open>The example pages\<close>

lemma bare_try: "try_selectors bare_page sels = None"
  by (induction sels) (auto simp: bare_page_def)

lemma bare_wait:
  "wait_until bare_page pracuj_title_wait = Inl (Exn TimeoutException (pstr ''Message: ''))"
  by (simp add: bare_page_def)

lemma bare_title: "pracuj_title bare_page = Inr (pstr ''N/A'')"
proof -
  have c: "class_of_exn (Exn TimeoutException (pstr ''Message: '')) = TimeoutException"
    by simp
  show ?thesis by (rule pracuj_title_timeout [OF bare_wait c bare_try])
qed



lemma duplicate_try: "try_selectors duplicate_page sels = None"
  by (induction sels) (auto simp: duplicate_page_def bare_page_def)

lemma duplicate_title: "pracuj_title duplicate_page = Inr (pstr ''N/A'')"
proof -
  have w: "wait_until duplicate_page pracuj_title_wait
             = Inl (Exn TimeoutException (pstr ''Message: ''))"
    by (simp add: duplicate_page_def bare_page_def)
  have c: "class_of_exn (Exn TimeoutException (pstr ''Message: '')) = TimeoutException"
    by simp
  show ?thesis by (rule pracuj_title_timeout [OF w c duplicate_try])
qed

lemma duplicate_items:
  "extract_list_items duplicate_page pracuj_req_selectors
     = [pstr ''Python 3 years'', pstr ''Python 3 years'']"
  by (simp add: extract_list_items_def duplicate_page_def bare_page_def pracuj_req_selectors_def
      item_ok_def strip_def isspace_def Let_def)


section \<open>Caps and duplicates of the two lists\<close>

lemma distinct_tech_keywords: "distinct tech_keywords"
  by (simp add: tech_keywords_def)

lemma extract_skills_from_text_props:
  "length (extract_skills_from_text e txt) \<le> 15 \<and> distinct (extract_skills_from_text e txt) \<and>
   (\<exists>P. extract_skills_from_text e txt = take 15 (filter P tech_keywords))"
proof (cases "txt = []")
  case True
  have "[] = take 15 (filter (\<lambda>k. False) tech_keywords)" by simp
  then have "\<exists>P. [] = take 15 (filter P tech_keywords)" by blast
  with True show ?thesis by (simp add: extract_skills_from_text_def)
next
  case False
  then show ?thesis
    by (auto simp: extract_skills_from_text_def Let_def distinct_tech_keywords)
qed

lemma extract_requirements_length: "length (extract_requirements_from_text e txt) \<le> 10"
  by (simp add: extract_requirements_from_text_def)

lemma add_keywords_filter:
  "distinct ks \<Longrightarrow>
   add_keywords e t ks found = found @ filter (\<lambda>k. py_in (lower e k) t \<and> k \<notin> set found) ks"
proof (induction ks arbitrary: found)
  case Nil
  then show ?case by simp
next
  case (Cons k ks)
  then have d: "distinct ks" and nk: "k \<notin> set ks" by auto
  show ?case
  proof (cases "py_in (lower e k) t \<and> k \<notin> set found")
    case True
    have "filter (\<lambda>k'. py_in (lower e k') t \<and> k' \<notin> set (found @ [k])) ks
            = filter (\<lambda>k'. py_in (lower e k') t \<and> k' \<notin> set found) ks"
      using nk by (intro filter_cong) auto
    with True Cons.IH [OF d, of "found @ [k]"] show ?thesis by simp
  next
    case False
    with Cons.IH [OF d, of found] show ?thesis by auto
  qed
qed

lemma pracuj_try_fields:
  assumes "scrape_pracuj_selenium_try e pg = Inr r"
  shows "\<exists>body. body_text pg = Inr body \<and>
           requirements r = Some (extract_list_items pg pracuj_req_selectors) \<and>
           skills r = Some (take 15 (set_iter e (add_keywords e (lower e body) tech_keywords
                        (selector_loop (skill_ok e) pg pracuj_skill_selectors []))))"
  using assms
  by (auto simp: scrape_pracuj_selenium_try_def extract_skills_def extract_list_items_def Let_def
      split: sum.splits)

lemma generic_try_fields:
  assumes "extract_generic_info_try e sp u p = Inr r"
  shows "\<exists>ptext. get_text sp = Inr ptext \<and>
           requirements r = Some (extract_requirements_from_text e ptext) \<and>
           skills r = Some (extract_skills_from_text e ptext)"
  using assms
  by (auto simp: extract_generic_info_try_def Let_def split: sum.splits)

lemma first_group_items:
  assumes "list_all (no_items pg) pre" and "find_elements pg s = Inr (map Inr texts)"
      and "filter item_ok (map strip texts) \<noteq> []"
  shows "extract_list_items pg (pre @ s # post) = take 10 (filter item_ok (map strip texts))"
proof -
  have "selector_loop item_ok pg (pre @ s # post) [] = selector_loop item_ok pg (s # post) []"
    by (rule selector_loop_skip [OF assms(1)])
  also have "\<dots> = filter item_ok (map strip texts)"
    using assms(2,3) by (simp add: collect_texts_map_Inr)
  finally show ?thesis by (simp add: extract_list_items_def)
qed

lemma rich_try: "try_selectors rich_page sels = None"
  by (induction sels) (auto simp: rich_page_def bare_page_def)

lemma rich_title: "pracuj_title rich_page = Inr (pstr ''N/A'')"
proof -
  have w: "wait_until rich_page pracuj_title_wait
             = Inl (Exn TimeoutException (pstr ''Message: ''))"
    by (simp add: rich_page_def bare_page_def)
  have c: "class_of_exn (Exn TimeoutException (pstr ''Message: '')) = TimeoutException"
    by simp
  show ?thesis by (rule pracuj_title_timeout [OF w c rich_try])
qed

lemma rich_body: "body_text rich_page = Inr (pstr ''We use Redis.'')"
  by (simp add: rich_page_def)

lemma rich_success: "success (scrape_pracuj_selenium e rich_page)"
proof -
  have u: "current_url rich_page = Inr (pstr ''https://www.pracuj.pl/praca/1'')"
    by (simp add: rich_page_def bare_page_def)
  from pracuj_returns [OF rich_title rich_body u, of e] show ?thesis by simp
qed

lemma hiring_set_iter_ok: "set_iter_ok hiring_env"
  by (simp add: set_iter_ok_def hiring_env_def)

lemma rich_chips:
  "selector_loop (skill_ok hiring_env) rich_page pracuj_skill_selectors []
     = [pstr ''Django'', pstr ''Docker'']"
  by (simp add: rich_page_def bare_page_def pracuj_skill_selectors_def skill_ok_def
      hiring_env_def sample_env_def ascii_isdigit_def strip_def isspace_def Let_def)

lemma hiring_lower: "lower hiring_env = ascii_lower"
  by (simp add: hiring_env_def sample_env_def)

lemma rich_keywords:
  "filter (\<lambda>k. py_in (lower hiring_env k) (lower hiring_env (pstr ''We use Redis.'')) \<and>
              k \<notin> set [pstr ''Django'', pstr ''Docker'']) tech_keywords
     = [pstr ''Redis'']"
  by (simp add: hiring_lower ascii_lower_def tech_keywords_def)

lemma hiring_keywords:
  "filter (\<lambda>k. py_in (lower hiring_env k) (lower hiring_env hiring_text)) tech_keywords
     = [pstr ''Python'', pstr ''Redis'', pstr ''Docker'', pstr ''Kubernetes'']"
  by (simp add: hiring_lower ascii_lower_def tech_keywords_def hiring_text_def)

lemma hiring_pieces:
  "concat (map (\<lambda>pattern.
       concat (map (\<lambda>m. filter req_ok (map strip (re_split hiring_env m)))
         (re_findall hiring_env pattern hiring_text))) patterns)
     = [pstr ''Python 3 years'', pstr ''Docker and Kubernetes'']"
  by (simp add: hiring_env_def patterns_def req_ok_def strip_def isspace_def)

lemma hiring_find_title: "find_title hiring_soup title_tags = Inr (pstr ''Python Developer'')"
  by (simp add: hiring_soup_def title_tags_def strip_def isspace_def)

lemma hiring_success: "success (extract_generic_info e hiring_soup u p)"
  using generic_returns [OF hiring_find_title, of _ e u p]
  by (simp add: hiring_soup_def)

text \<open>
  Claim C2, as amended. In every successful result of the pracuj strategy and of the
  generic extractor the requirements list has at most 10 entries and the skills list
  has at most 15 entries and no duplicate.

  \<^item> The pracuj requirements are what _extract_list_items collected, in the order of
    collection and with duplicates kept: when the groups before a group leave the
    list empty and that group is read without an exception and gives an accepted
    text, they are the first 10 accepted texts of that group, in element order.
  \<^item> The pracuj skills are the first 15 elements of \<open>list(set(found))\<close>, where
    \<open>found\<close> is the discovery list: the accepted tag texts, then the lexicon
    keywords that occur in the body text and are not among them. Their order is the
    iteration order of the set, not the discovery order.
  \<^item> The generic requirements are the first 10 accepted pieces, in the order of the
    patterns, of the matches of a pattern and of the pieces of a match, with
    duplicates kept.
  \<^item> The generic skills are the first 15 lexicon keywords that occur in the page
    text, in lexicon order.
\<close>

theorem caps_and_distinct_skills:
  "(success (scrape_pracuj_selenium e pg) \<longrightarrow>
      (\<exists>body chips found rs ss.
         body_text pg = Inr body \<and>
         chips = selector_loop (skill_ok e) pg pracuj_skill_selectors [] \<and>
         found = chips @ filter (\<lambda>k. py_in (lower e k) (lower e body) \<and> k \<notin> set chips)
                           tech_keywords \<and>
         ss = take 15 (set_iter e found) \<and>
         rs = extract_list_items pg pracuj_req_selectors \<and>
         requirements (scrape_pracuj_selenium e pg) = Some rs \<and>
         skills (scrape_pracuj_selenium e pg) = Some ss \<and>
         length rs \<le> 10 \<and> length ss \<le> 15 \<and>
         (set_iter_ok e \<longrightarrow> distinct ss \<and> set ss \<subseteq> set found))) \<and>
   (success (scrape_pracuj_selenium e pg) \<longrightarrow> pracuj_req_selectors = pre @ s # post \<longrightarrow>
    list_all (no_items pg) pre \<longrightarrow> find_elements pg s = Inr (map Inr texts) \<longrightarrow>
    filter item_ok (map strip texts) \<noteq> [] \<longrightarrow>
      requirements (scrape_pracuj_selenium e pg)
        = Some (take 10 (filter item_ok (map strip texts)))) \<and>
   (success (extract_generic_info e sp u p) \<longrightarrow>
      (\<exists>ptext rs ss.
         get_text sp = Inr ptext \<and>
         requirements (extract_generic_info e sp u p) = Some rs \<and>
         skills (extract_generic_info e sp u p) = Some ss \<and>
         length rs \<le> 10 \<and> length ss \<le> 15 \<and> distinct ss \<and>
         (ptext \<noteq> [] \<longrightarrow>
            ss = take 15 (filter (\<lambda>k. py_in (lower e k) (lower e ptext)) tech_keywords) \<and>
            rs = take 10 (concat (map (\<lambda>pattern.
                   concat (map (\<lambda>m. filter req_ok (map strip (re_split e m)))
                     (re_findall e pattern ptext))) patterns)))))"
proof (intro conjI impI)
  assume "success (scrape_pracuj_selenium e pg)"
  then obtain r where r: "scrape_pracuj_selenium_try e pg = Inr r"
    by (auto simp: pracuj_success_iff)
  then have eq: "scrape_pracuj_selenium e pg = r" by (simp add: scrape_pracuj_selenium_def)
  from pracuj_try_fields [OF r] obtain body where
    b: "body_text pg = Inr body"
    and rq: "requirements r = Some (extract_list_items pg pracuj_req_selectors)"
    and sk: "skills r = Some (take 15 (set_iter e (add_keywords e (lower e body) tech_keywords
                        (selector_loop (skill_ok e) pg pracuj_skill_selectors []))))"
    by blast
  define chips where "chips = selector_loop (skill_ok e) pg pracuj_skill_selectors []"
  define found where
    "found = chips @ filter (\<lambda>k. py_in (lower e k) (lower e body) \<and> k \<notin> set chips) tech_keywords"
  have f: "add_keywords e (lower e body) tech_keywords chips = found"
    unfolding found_def by (rule add_keywords_filter [OF distinct_tech_keywords])
  have d: "distinct (take 15 (set_iter e found)) \<and> set (take 15 (set_iter e found)) \<subseteq> set found"
    if "set_iter_ok e"
  proof -
    from that have "distinct (set_iter e found)" and "set (set_iter e found) = set found"
      by (auto simp: set_iter_ok_def)
    then show ?thesis using set_take_subset [of 15 "set_iter e found"] by auto
  qed
  have l: "length (extract_list_items pg pracuj_req_selectors) \<le> 10"
    by (simp add: extract_list_items_def)
  from b rq sk f d l eq chips_def found_def
  show "\<exists>body chips found rs ss.
         body_text pg = Inr body \<and>
         chips = selector_loop (skill_ok e) pg pracuj_skill_selectors [] \<and>
         found = chips @ filter (\<lambda>k. py_in (lower e k) (lower e body) \<and> k \<notin> set chips)
                           tech_keywords \<and>
         ss = take 15 (set_iter e found) \<and>
         rs = extract_list_items pg pracuj_req_selectors \<and>
         requirements (scrape_pracuj_selenium e pg) = Some rs \<and>
         skills (scrape_pracuj_selenium e pg) = Some ss \<and>
         length rs \<le> 10 \<and> length ss \<le> 15 \<and>
         (set_iter_ok e \<longrightarrow> distinct ss \<and> set ss \<subseteq> set found)"
    by (intro exI [of _ body] exI [of _ chips] exI [of _ found]
        exI [of _ "extract_list_items pg pracuj_req_selectors"]
        exI [of _ "take 15 (set_iter e found)"]) simp
next
  assume s: "success (scrape_pracuj_selenium e pg)"
    and sel: "pracuj_req_selectors = pre @ s # post"
    and pre: "list_all (no_items pg) pre"
    and el: "find_elements pg s = Inr (map Inr texts)"
    and ne: "filter item_ok (map strip texts) \<noteq> []"
  from s obtain r where r: "scrape_pracuj_selenium_try e pg = Inr r"
    by (auto simp: pracuj_success_iff)
  then have eq: "scrape_pracuj_selenium e pg = r" by (simp add: scrape_pracuj_selenium_def)
  from pracuj_try_fields [OF r]
  have "requirements r = Some (extract_list_items pg pracuj_req_selectors)" by blast
  with eq sel first_group_items [OF pre el ne, of post]
  show "requirements (scrape_pracuj_selenium e pg)
        = Some (take 10 (filter item_ok (map strip texts)))"
    by simp
next
  assume "success (extract_generic_info e sp u p)"
  then obtain r where r: "extract_generic_info_try e sp u p = Inr r"
    by (auto simp: generic_success_iff)
  then have eq: "extract_generic_info e sp u p = r" by (simp add: extract_generic_info_def)
  from generic_try_fields [OF r] obtain ptext where
    g: "get_text sp = Inr ptext"
    and rq: "requirements r = Some (extract_requirements_from_text e ptext)"
    and sk: "skills r = Some (extract_skills_from_text e ptext)"
    by blast
  have 1: "length (extract_requirements_from_text e ptext) \<le> 10"
    by (rule extract_requirements_length)
  have 2: "length (extract_skills_from_text e ptext) \<le> 15 \<and>
           distinct (extract_skills_from_text e ptext)"
    using extract_skills_from_text_props [of e ptext] by blast
  have 3: "extract_skills_from_text e ptext
             = take 15 (filter (\<lambda>k. py_in (lower e k) (lower e ptext)) tech_keywords) \<and>
           extract_requirements_from_text e ptext
             = take 10 (concat (map (\<lambda>pattern.
                   concat (map (\<lambda>m. filter req_ok (map strip (re_split e m)))
                     (re_findall e pattern ptext))) patterns))"
    if "ptext \<noteq> []"
    using that by (simp add: extract_skills_from_text_def extract_requirements_from_text_def Let_def)
  from g rq sk 1 2 3 eq
  show "\<exists>ptext rs ss.
         get_text sp = Inr ptext \<and>
         requirements (extract_generic_info e sp u p) = Some rs \<and>
         skills (extract_generic_info e sp u p) = Some ss \<and>
         length rs \<le> 10 \<and> length ss \<le> 15 \<and> distinct ss \<and>
         (ptext \<noteq> [] \<longrightarrow>
            ss = take 15 (filter (\<lambda>k. py_in (lower e k) (lower e ptext)) tech_keywords) \<and>
            rs = take 10 (concat (map (\<lambda>pattern.
                   concat (map (\<lambda>m. filter req_ok (map strip (re_split e m)))
                     (re_findall e pattern ptext))) patterns)))"
    by (intro exI [of _ ptext] exI [of _ "extract_requirements_from_text e ptext"]
        exI [of _ "extract_skills_from_text e ptext"]) simp
qed

text \<open>
  A pracuj page with two bullets, two tags and one more technology in its body
  text, and a static page with a requirement block, on a machine whose sets iterate
  in reverse: the requirements keep their order, the pracuj skills come out
  reversed, the generic skills in lexicon order.
\<close>

theorem caps_and_distinct_skills_witness:
  "success (scrape_pracuj_selenium hiring_env rich_page) \<and>
   set_iter_ok hiring_env \<and>
   pracuj_req_selectors
     = [hd pracuj_req_selectors] @ pstr ''.requirements li'' # drop 2 pracuj_req_selectors \<and>
   list_all (no_items rich_page) [hd pracuj_req_selectors] \<and>
   find_elements rich_page (pstr ''.requirements li'')
     = Inr (map Inr [pstr ''Python 3 years'', pstr ''Docker and Kubernetes'']) \<and>
   filter item_ok (map strip [pstr ''Python 3 years'', pstr ''Docker and Kubernetes''])
     = [pstr ''Python 3 years'', pstr ''Docker and Kubernetes''] \<and>
   requirements (scrape_pracuj_selenium hiring_env rich_page)
     = Some [pstr ''Python 3 years'', pstr ''Docker and Kubernetes''] \<and>
   skills (scrape_pracuj_selenium hiring_env rich_page)
     = Some [pstr ''Redis'', pstr ''Docker'', pstr ''Django''] \<and>
   success (extract_generic_info hiring_env hiring_soup (pstr ''https://example.com/jobs/1'')
      (pstr ''unknown'')) \<and>
   get_text hiring_soup = Inr hiring_text \<and>
   hiring_text \<noteq> [] \<and>
   requirements (extract_generic_info hiring_env hiring_soup (pstr ''https://example.com/jobs/1'')
      (pstr ''unknown'')) = Some [pstr ''Python 3 years'', pstr ''Docker and Kubernetes''] \<and>
   skills (extract_generic_info hiring_env hiring_soup (pstr ''https://example.com/jobs/1'')
      (pstr ''unknown''))
     = Some [pstr ''Python'', pstr ''Redis'', pstr ''Docker'', pstr ''Kubernetes'']"
proof -
  let ?u = "pstr ''https://example.com/jobs/1''"
  let ?p = "pstr ''unknown''"
  let ?a = "pstr ''Python 3 years''"
  let ?b = "pstr ''Docker and Kubernetes''"
  let ?pre = "[hd pracuj_req_selectors]"
  let ?post = "drop 2 pracuj_req_selectors"
  note inst = caps_and_distinct_skills [where e = hiring_env and pg = rich_page
      and sp = hiring_soup and u = ?u and p = ?p and pre = ?pre
      and s = "pstr ''.requirements li''" and post = ?post and texts = "[?a, ?b]"]
  have a: "success (scrape_pracuj_selenium hiring_env rich_page)" by (rule rich_success)
  have b: "success (extract_generic_info hiring_env hiring_soup ?u ?p)" by (rule hiring_success)
  have split: "pracuj_req_selectors = ?pre @ pstr ''.requirements li'' # ?post"
    by (simp add: pracuj_req_selectors_def)
  have pre: "list_all (no_items rich_page) ?pre"
    by (simp add: no_items_def rich_page_def bare_page_def pracuj_req_selectors_def)
  have el: "find_elements rich_page (pstr ''.requirements li'') = Inr (map Inr [?a, ?b])"
    by (simp add: rich_page_def bare_page_def)
  have f: "filter item_ok (map strip [?a, ?b]) = [?a, ?b]"
    by (simp add: item_ok_def strip_def isspace_def)
  then have ne: "filter item_ok (map strip [?a, ?b]) \<noteq> []" by simp
  from inst a split pre el ne
  have "requirements (scrape_pracuj_selenium hiring_env rich_page)
          = Some (take 10 (filter item_ok (map strip [?a, ?b])))"
    by blast
  with f have r1: "requirements (scrape_pracuj_selenium hiring_env rich_page) = Some [?a, ?b]"
    by simp
  from inst a obtain body chips found ss where
    bd: "body_text rich_page = Inr body"
    and ch: "chips = selector_loop (skill_ok hiring_env) rich_page pracuj_skill_selectors []"
    and fo: "found = chips @ filter (\<lambda>k. py_in (lower hiring_env k) (lower hiring_env body) \<and>
                               k \<notin> set chips) tech_keywords"
    and ss: "ss = take 15 (set_iter hiring_env found)"
    and sk: "skills (scrape_pracuj_selenium hiring_env rich_page) = Some ss"
    by blast
  from bd have body: "body = pstr ''We use Redis.''" by (simp add: rich_body)
  from ch have chips: "chips = [pstr ''Django'', pstr ''Docker'']" by (simp only: rich_chips)
  from fo have found: "found = [pstr ''Django'', pstr ''Docker'', pstr ''Redis'']"
    unfolding body chips by (simp only: rich_keywords) simp
  from ss have "ss = [pstr ''Redis'', pstr ''Docker'', pstr ''Django'']"
    unfolding found by (simp add: hiring_env_def)
  with sk have s1: "skills (scrape_pracuj_selenium hiring_env rich_page)
          = Some [pstr ''Redis'', pstr ''Docker'', pstr ''Django'']"
    by simp
  have g: "get_text hiring_soup = Inr hiring_text" by (simp add: hiring_soup_def)
  have n: "hiring_text \<noteq> []" by (simp add: hiring_text_def)
  from inst b obtain ptext rs ss' where
    gt: "get_text hiring_soup = Inr ptext"
    and rq: "requirements (extract_generic_info hiring_env hiring_soup ?u ?p) = Some rs"
    and sk': "skills (extract_generic_info hiring_env hiring_soup ?u ?p) = Some ss'"
    and ord: "ptext \<noteq> [] \<longrightarrow>
       ss' = take 15 (filter (\<lambda>k. py_in (lower hiring_env k) (lower hiring_env ptext))
               tech_keywords) \<and>
       rs = take 10 (concat (map (\<lambda>pattern.
              concat (map (\<lambda>m. filter req_ok (map strip (re_split hiring_env m)))
                (re_findall hiring_env pattern ptext))) patterns))"
    by blast
  from gt g have ptext: "ptext = hiring_text" by simp
  from ord n have "ss' = [pstr ''Python'', pstr ''Redis'', pstr ''Docker'', pstr ''Kubernetes'']"
    and "rs = [?a, ?b]"
    unfolding ptext by (simp_all only: hiring_keywords hiring_pieces) simp_all
  with rq sk' have
    r2: "requirements (extract_generic_info hiring_env hiring_soup ?u ?p) = Some [?a, ?b]"
    and s2: "skills (extract_generic_info hiring_env hiring_soup ?u ?p)
          = Some [pstr ''Python'', pstr ''Redis'', pstr ''Docker'', pstr ''Kubernetes'']"
    by simp_all
  from a hiring_set_iter_ok split pre el f r1 s1 b g n r2 s2 show ?thesis by blast
qed

text \<open>
  The claim as written fails on the requirements: a pracuj page that lists one
  bullet twice gives a successful result whose requirements hold it twice.
\<close>

theorem duplicate_requirements_kept:
  "success (scrape_pracuj_selenium sample_env duplicate_page) \<and>
   requirements (scrape_pracuj_selenium sample_env duplicate_page)
     = Some [pstr ''Python 3 years'', pstr ''Python 3 years''] \<and>
   \<not> distinct [pstr ''Python 3 years'', pstr ''Python 3 years'']"
proof -
  have b: "body_text duplicate_page = Inr (pstr ''We build software.'')"
    by (simp add: duplicate_page_def bare_page_def)
  have u: "current_url duplicate_page = Inr (pstr ''https://www.pracuj.pl/praca/1'')"
    by (simp add: duplicate_page_def bare_page_def)
  from pracuj_returns [OF duplicate_title b u, of sample_env] duplicate_items
  show ?thesis by simp
qed

section \<open>Success and the title\<close>




section \<open>Failure results\<close>

lemma failure_with_fields:
  "failure_with m r \<Longrightarrow> \<not> success r \<and> error r = Some m \<and> content_absent r"
  by (auto simp: failure_with_def failure_def failure_at_def content_absent_def)

lemma find_title_raises: "find_title sp tags = Inl ex \<Longrightarrow> soup_raises sp ex"
  by (induction tags) (auto simp: soup_raises_def split: sum.splits option.splits if_splits)

lemma generic_try_raises: "extract_generic_info_try e sp u p = Inl ex \<Longrightarrow> soup_raises sp ex"
  by (auto simp: extract_generic_info_try_def Let_def soup_raises_def
      dest: find_title_raises split: sum.splits)

lemma pracuj_try_raises: "scrape_pracuj_selenium_try e pg = Inl ex \<Longrightarrow> page_raises pg ex"
  by (auto simp: scrape_pracuj_selenium_try_def pracuj_title_def extract_skills_def Let_def
      page_raises_def split: sum.splits if_splits)

lemma stripped_texts_raises: "stripped_texts elements = Inl ex \<Longrightarrow> Inl ex \<in> set elements"
  by (induction elements rule: stripped_texts.induct) (auto split: sum.splits)

lemma texts_of_raises: "texts_of pg sel = Inl ex \<Longrightarrow> page_raises pg ex"
  by (auto simp: texts_of_def page_raises_def dest: stripped_texts_raises split: sum.splits)

lemma nofluff_try_raises:
  assumes "scrape_nofluff_selenium_try e pg = Inl ex"
  shows "page_raises pg ex"
proof -
  from assms consider
      (query) "(\<exists>sel. wait_until pg sel = Inl ex) \<or> (\<exists>sel. find_element pg sel = Inl ex) \<or>
               current_url pg = Inl ex"
    | (texts) "\<exists>sel. texts_of pg sel = Inl ex"
    unfolding scrape_nofluff_selenium_try_def by (auto split: sum.splits)
  then show ?thesis
  proof cases
    case query
    then show ?thesis by (auto simp: page_raises_def)
  next
    case texts
    then show ?thesis by (auto dest: texts_of_raises)
  qed
qed

lemma pracuj_failure:
  assumes "\<not> success (scrape_pracuj_selenium e pg)"
  shows "\<exists>ex. page_raises pg ex \<and> scrape_pracuj_selenium e pg = failure (str_of_exn ex)"
proof (cases "scrape_pracuj_selenium_try e pg")
  case (Inl ex)
  then show ?thesis by (auto simp: scrape_pracuj_selenium_def dest: pracuj_try_raises)
next
  case (Inr r)
  with assms show ?thesis by (simp add: pracuj_success_iff)
qed

lemma nofluff_failure:
  assumes "\<not> success (scrape_nofluff_selenium e pg)"
  shows "\<exists>ex. page_raises pg ex \<and> scrape_nofluff_selenium e pg = failure (str_of_exn ex)"
proof (cases "scrape_nofluff_selenium_try e pg")
  case (Inl ex)
  then show ?thesis by (auto simp: scrape_nofluff_selenium_def dest: nofluff_try_raises)
next
  case (Inr r)
  with assms show ?thesis by (simp add: nofluff_success_iff)
qed

lemma generic_failure:
  assumes "\<not> success (extract_generic_info e sp u p)"
  shows "\<exists>ex. soup_raises sp ex \<and> extract_generic_info e sp u p = failure_at (str_of_exn ex) p u"
proof (cases "extract_generic_info_try e sp u p")
  case (Inl ex)
  then show ?thesis by (auto simp: extract_generic_info_def dest: generic_try_raises)
next
  case (Inr r)
  with assms show ?thesis by (simp add: generic_success_iff)
qed

lemma requests_failure:
  assumes "\<not> success (scrape_with_requests e u p)"
  shows "\<exists>ex. env_raises e ex \<and> scrape_with_requests e u p = failure_at (str_of_exn ex) p u"
proof (cases "session_get e u")
  case (Inl ex)
  then have "env_raises e ex" by (auto simp: env_raises_def)
  with Inl show ?thesis by (auto simp: scrape_with_requests_def)
next
  case (Inr sp)
  with assms have "\<not> success (extract_generic_info e sp u p)"
    by (simp add: scrape_with_requests_def)
  from generic_failure [OF this] obtain ex where
    "soup_raises sp ex" and "extract_generic_info e sp u p = failure_at (str_of_exn ex) p u"
    by blast
  moreover from this Inr have "env_raises e ex" by (auto simp: env_raises_def)
  ultimately show ?thesis using Inr by (auto simp: scrape_with_requests_def)
qed

lemma selenium_failure:
  assumes "\<not> success (scrape_with_selenium e self u p)"
  shows "\<exists>m. failure_with m (scrape_with_selenium e self u p) \<and>
           (m = pstr ''Selenium not available'' \<or> m = str_of_exn no_justjoin_method \<or>
            (\<exists>d ex. driver self = Some d \<and> driver_raises d ex \<and> m = str_of_exn ex))"
proof (cases "driver self")
  case None
  then show ?thesis by (auto simp: scrape_with_selenium_def failure_with_def)
next
  case (Some d)
  show ?thesis
  proof (cases "driver_get d u")
    case (Inl ex)
    then have "driver_raises d ex" by (auto simp: driver_raises_def)
    moreover from Inl Some have "scrape_with_selenium e self u p = failure (str_of_exn ex)"
      by (simp add: scrape_with_selenium_def scrape_with_selenium_try_def)
    ultimately show ?thesis using Some by (auto simp: failure_with_def)
  next
    case (Inr pg)
    have up: "driver_raises d ex" if "page_raises pg ex" for ex
      using that Inr by (auto simp: driver_raises_def)
    consider (pracuj) "p = pstr ''pracuj''"
      | (nofluff) "p \<noteq> pstr ''pracuj''" "p = pstr ''nofluff''"
      | (justjoin) "p \<noteq> pstr ''pracuj''" "p \<noteq> pstr ''nofluff''" "p = pstr ''justjoin''"
      | (other) "p \<noteq> pstr ''pracuj''" "p \<noteq> pstr ''nofluff''" "p \<noteq> pstr ''justjoin''"
      by blast
    then show ?thesis
    proof cases
      case pracuj
      with Some Inr have eq: "scrape_with_selenium e self u p = scrape_pracuj_selenium e pg"
        by (simp add: scrape_with_selenium_def scrape_with_selenium_try_def)
      with assms pracuj_failure [of e pg] obtain ex where
        "page_raises pg ex" "scrape_pracuj_selenium e pg = failure (str_of_exn ex)" by auto
      with eq up Some show ?thesis by (auto simp: failure_with_def)
    next
      case nofluff
      with Some Inr have eq: "scrape_with_selenium e self u p = scrape_nofluff_selenium e pg"
        by (simp add: scrape_with_selenium_def scrape_with_selenium_try_def)
      with assms nofluff_failure [of e pg] obtain ex where
        "page_raises pg ex" "scrape_nofluff_selenium e pg = failure (str_of_exn ex)" by auto
      with eq up Some show ?thesis by (auto simp: failure_with_def)
    next
      case justjoin
      with Some Inr have "scrape_with_selenium e self u p = failure (str_of_exn no_justjoin_method)"
        by (simp add: scrape_with_selenium_def scrape_with_selenium_try_def)
      then show ?thesis by (auto simp: failure_with_def)
    next
      case other
      show ?thesis
      proof (cases "page_source pg")
        case (Inl ex)
        then have "page_raises pg ex" by (auto simp: page_raises_def)
        moreover from Inl other Some Inr
        have "scrape_with_selenium e self u p = failure (str_of_exn ex)"
          by (simp add: scrape_with_selenium_def scrape_with_selenium_try_def)
        ultimately show ?thesis using up Some by (auto simp: failure_with_def)
      next
        case (Inr sp)
        with other Some \<open>driver_get d u = Inr pg\<close>
        have eq: "scrape_with_selenium e self u p = extract_generic_info e sp u p"
          by (simp add: scrape_with_selenium_def scrape_with_selenium_try_def)
        with assms generic_failure [of e sp u p] obtain ex where
          r: "soup_raises sp ex" "extract_generic_info e sp u p = failure_at (str_of_exn ex) p u"
          by auto
        from r(1) Inr have "page_raises pg ex" by (auto simp: page_raises_def)
        with eq r(2) up Some show ?thesis by (auto simp: failure_with_def)
      qed
    qed
  qed
qed

lemma job_failure:
  assumes "scrape_job e self u = Inr r" and "\<not> success r"
  shows "\<exists>ex. env_raises e ex \<and> failure_with (str_of_exn ex) r"
proof -
  from assms obtain p where "r = scrape_with_requests e u p"
    by (auto simp: scrape_job_def Let_def split: sum.splits if_splits)
  with assms(2) requests_failure [of e u p] show ?thesis
    by (auto simp: failure_with_def)
qed

text \<open>
  Claim C1, as amended. A result with success=False that a stage returns (the pracuj
  or the nofluff strategy on a page, the Selenium stage, the generic extractor on a
  document, the requests stage, or scrape_job) has none of the content fields, and
  it has an error field. The error text is \<open>Selenium not available\<close>, the text of the
  AttributeError for the missing justjoin method, or \<open>str(e)\<close> of an exception that a
  call into the world raised; so it is non-empty whenever the world raises no
  exception with an empty text.
\<close>

theorem failure_results:
  assumes "stage_result e self pg sp u p r" and "\<not> success r"
  shows "content_absent r \<and>
         (\<exists>m. error r = Some m \<and>
            (m = pstr ''Selenium not available'' \<or> m = str_of_exn no_justjoin_method \<or>
             (\<exists>ex. world_raises e self pg sp ex \<and> m = str_of_exn ex)) \<and>
            ((\<forall>ex. world_raises e self pg sp ex \<longrightarrow> str_of_exn ex \<noteq> []) \<longrightarrow> m \<noteq> []))"
proof -
  have "\<exists>m. failure_with m r \<and>
          (m = pstr ''Selenium not available'' \<or> m = str_of_exn no_justjoin_method \<or>
           (\<exists>ex. world_raises e self pg sp ex \<and> m = str_of_exn ex))"
    using assms(1) unfolding stage_result_def
  proof (elim disjE)
    assume "r = scrape_pracuj_selenium e pg"
    with assms(2) pracuj_failure [of e pg] show ?thesis
      by (auto simp: failure_with_def world_raises_def)
  next
    assume "r = scrape_nofluff_selenium e pg"
    with assms(2) nofluff_failure [of e pg] show ?thesis
      by (auto simp: failure_with_def world_raises_def)
  next
    assume "r = scrape_with_selenium e self u p"
    with assms(2) selenium_failure [of e self u p] show ?thesis
      by (auto simp: world_raises_def)
  next
    assume "r = extract_generic_info e sp u p"
    with assms(2) generic_failure [of e sp u p] show ?thesis
      by (auto simp: failure_with_def world_raises_def)
  next
    assume "r = scrape_with_requests e u p"
    with assms(2) requests_failure [of e u p] show ?thesis
      by (auto simp: failure_with_def world_raises_def)
  next
    assume "scrape_job e self u = Inr r"
    from job_failure [OF this assms(2)] show ?thesis
      by (auto simp: world_raises_def)
  qed
  then obtain m where m: "failure_with m r"
    and src: "m = pstr ''Selenium not available'' \<or> m = str_of_exn no_justjoin_method \<or>
           (\<exists>ex. world_raises e self pg sp ex \<and> m = str_of_exn ex)"
    by blast
  have ne: "m \<noteq> []" if "\<forall>ex. world_raises e self pg sp ex \<longrightarrow> str_of_exn ex \<noteq> []"
    using src that by (auto simp: no_justjoin_method_def)
  from failure_with_fields [OF m] src ne show ?thesis by blast
qed

lemma forbidden_world:
  "\<not> (\<exists>ex. world_raises forbidden_env (init forbidden_env False True) bare_page untitled_soup ex \<and>
          str_of_exn ex = [])"
  by (auto simp: world_raises_def env_raises_def page_raises_def soup_raises_def init_def
      forbidden_env_def bare_page_def untitled_soup_def)

text \<open>A fetch that the server refuses, in a scraper built without Selenium.\<close>

theorem failure_results_witness:
  "stage_result forbidden_env (init forbidden_env False True) bare_page untitled_soup
     (pstr ''https://example.com/jobs/1'') (pstr ''unknown'')
     (scrape_with_requests forbidden_env (pstr ''https://example.com/jobs/1'') (pstr ''unknown'')) \<and>
   \<not> success (scrape_with_requests forbidden_env (pstr ''https://example.com/jobs/1'')
        (pstr ''unknown'')) \<and>
   \<not> (\<exists>ex. world_raises forbidden_env (init forbidden_env False True) bare_page untitled_soup ex \<and>
          str_of_exn ex = []) \<and>
   content_absent (scrape_with_requests forbidden_env (pstr ''https://example.com/jobs/1'')
        (pstr ''unknown'')) \<and>
   (\<exists>m. error (scrape_with_requests forbidden_env (pstr ''https://example.com/jobs/1'')
        (pstr ''unknown'')) = Some m \<and> m \<noteq> [])"
proof -
  let ?u = "pstr ''https://example.com/jobs/1''"
  let ?p = "pstr ''unknown''"
  let ?self = "init forbidden_env False True"
  let ?r = "scrape_with_requests forbidden_env ?u ?p"
  have st: "stage_result forbidden_env ?self bare_page untitled_soup ?u ?p ?r"
    by (simp add: stage_result_def)
  have ns: "\<not> success ?r"
    by (simp add: scrape_with_requests_def forbidden_env_def failure_at_def failure_def)
  from forbidden_world
  have w: "\<forall>ex. world_raises forbidden_env ?self bare_page untitled_soup ex \<longrightarrow> str_of_exn ex \<noteq> []"
    by blast
  from failure_results [OF st ns] w
  have "content_absent ?r \<and> (\<exists>m. error ?r = Some m \<and> m \<noteq> [])"
    by blast
  with st ns forbidden_world show ?thesis by blast
qed

text \<open>
  The claim as written fails on the error text: when the fetch raises an exception
  whose text is empty, as a MemoryError has, the failure carries the empty string.
\<close>

theorem empty_error_text:
  "\<not> success (scrape_with_requests out_of_memory_env (pstr ''https://example.com/jobs/1'')
        (pstr ''unknown'')) \<and>
   error (scrape_with_requests out_of_memory_env (pstr ''https://example.com/jobs/1'')
        (pstr ''unknown'')) = Some []"
  by (simp add: scrape_with_requests_def out_of_memory_env_def failure_at_def failure_def)

end
